theory Spec2Isabelle
  imports Complex_Main "HOL-Library.AList"
begin

section \<open>JavaScript Numbers\<close>

text \<open>
  Satoshi amounts are integer-valued Numbers. Sums, differences and products of
  integers are exact in binary64 as long as every value stays below \<open>2^53\<close>
  (\<open>Number.MAX_SAFE_INTEGER + 1\<close>), so amounts are kept as \<open>int\<close>.  The one place
  where the source leaves the integers is \<open>amount * 0.02\<close> in \<open>calculateFee\<close>:
  \<open>0.02\<close> is not a binary fraction and the product is rounded.  That product is
  computed here as IEEE-754 binary64 does it: the exact product of the two significands,
  rounded to 53 significant bits, ties to even.  A finite binary64 value is written as a
  dyadic fraction \<open>mant / 2 ^ expo\<close>; overflow and subnormal numbers cannot occur for the
  magnitudes \<open>calculateFee\<close> sees (between \<open>0.02\<close> and \<open>2^53\<close>) and are not modelled.
\<close>

datatype number = Dyadic (mant: int) (expo: nat)

definition number_value :: "number \<Rightarrow> rat" where
  "number_value x = of_int (mant x) / 2 ^ expo x"

fun bit_length :: "nat \<Rightarrow> nat" where
  "bit_length n = (if n = 0 then 0 else Suc (bit_length (n div 2)))"

declare bit_length.simps [simp del]

text \<open>\<open>n / 2^s\<close> rounded to the nearest integer, a tie going to the even neighbour.\<close>

definition round_ties_even :: "int \<Rightarrow> nat \<Rightarrow> int" where
  "round_ties_even n s =
     (let q = n div 2 ^ s; r = n mod 2 ^ s
      in if 2 * r < 2 ^ s then q
         else if 2 ^ s < 2 * r then q + 1
         else if even q then q else q + 1)"

text \<open>The binary64 value nearest to \<open>n / 2^e\<close>: at most 53 significant bits are kept.\<close>

definition binary64 :: "int \<Rightarrow> nat \<Rightarrow> number" where
  "binary64 n e =
     (let s = bit_length (nat \<bar>n\<bar>) - 53
      in Dyadic (round_ties_even n s * 2 ^ s) e)"

definition number_of_int :: "int \<Rightarrow> number" where
  "number_of_int a = Dyadic a 0"

definition number_times :: "number \<Rightarrow> number \<Rightarrow> number" where
  "number_times x y = binary64 (mant x * mant y) (expo x + expo y)"

text \<open>
  The literal \<open>0.02\<close>: the binary64 value nearest to \<open>2/100\<close>, which is
  \<open>5764607523034235 / 2^58\<close> (hexadecimal \<open>0x3F947AE147AE147B\<close>).
\<close>

definition literal_0_02 :: number where
  "literal_0_02 = Dyadic 5764607523034235 58"

definition Math_ceil :: "number \<Rightarrow> int" where
  "Math_ceil x = \<lceil>number_value x\<rceil>"

section \<open>JavaScript values and strings\<close>

text \<open>
  A field of a JSON object that the code tests for truthiness or combines with \<open>||\<close>
  keeps its JavaScript value.  \<open>a || b\<close> is \<open>a\<close> when \<open>a\<close> is truthy and \<open>b\<close>
  otherwise; \<open>a && b\<close> is \<open>a\<close> when \<open>a\<close> is falsy and \<open>b\<close> otherwise.
\<close>

datatype jsval = JUndefined | JNull | JBool bool | JNum int | JStr string

fun truthy :: "jsval \<Rightarrow> bool" where
  "truthy JUndefined = False"
| "truthy JNull = False"
| "truthy (JBool b) = b"
| "truthy (JNum n) = (n \<noteq> 0)"
| "truthy (JStr s) = (s \<noteq> [])"

definition js_or :: "jsval \<Rightarrow> jsval \<Rightarrow> jsval" where
  "js_or a b = (if truthy a then a else b)"

definition js_and :: "jsval \<Rightarrow> jsval \<Rightarrow> jsval" where
  "js_and a b = (if truthy a then b else a)"

text \<open>
  Strings are lists of characters; a \<open>char\<close> stands for an ASCII character (tokens,
  addresses, domains and messages with characters outside ASCII are not modelled).
  White space (\<open>String.prototype.trim\<close>, \<open>\s\<close>) in that range is TAB, LF, VT, FF, CR
  and SPACE.
\<close>

definition js_whitespace :: "char \<Rightarrow> bool" where
  "js_whitespace c = (c \<in> set [CHR 0x09, CHR 0x0A, CHR 0x0B, CHR 0x0C, CHR 0x0D, CHR 0x20])"

definition trim :: "string \<Rightarrow> string" where
  "trim s = rev (dropWhile js_whitespace (rev (dropWhile js_whitespace s)))"

definition toLowerCase_char :: "char \<Rightarrow> char" where
  "toLowerCase_char c =
     (case map_of (zip ''ABCDEFGHIJKLMNOPQRSTUVWXYZ'' ''abcdefghijklmnopqrstuvwxyz'') c of
        Some l \<Rightarrow> l
      | None \<Rightarrow> c)"

definition toLowerCase :: "string \<Rightarrow> string" where
  "toLowerCase s = map toLowerCase_char s"

definition startsWith :: "string \<Rightarrow> string \<Rightarrow> bool" where
  "startsWith s p = (take (length p) s = p)"

text \<open>\<open>s.includes(sub)\<close>: \<open>sub\<close> occurs in \<open>s\<close> as a contiguous substring.\<close>

fun str_includes :: "string \<Rightarrow> string \<Rightarrow> bool" where
  "str_includes [] sub = (sub = [])"
| "str_includes (c # s) sub = (startsWith (c # s) sub \<or> str_includes s sub)"

text \<open>\<open>s.split(sep)\<close> for a one-character separator.\<close>

fun split_on :: "char \<Rightarrow> string \<Rightarrow> string list" where
  "split_on sep [] = [[]]"
| "split_on sep (c # s) =
     (if c = sep then [] # split_on sep s
      else (case split_on sep s of
              [] \<Rightarrow> [[c]]
            | p # ps \<Rightarrow> (c # p) # ps))"

text \<open>\<open>xs.join(', ')\<close>.\<close>

fun join_comma :: "string list \<Rightarrow> string" where
  "join_comma [] = []"
| "join_comma [x] = x"
| "join_comma (x # y # ys) = x @ '', '' @ join_comma (y # ys)"

text \<open>The decimal text of an integer Number, as a template literal prints it.\<close>

fun digits :: "nat \<Rightarrow> string" where
  "digits n = (if n < 10 then [''0123456789'' ! n] else digits (n div 10) @ [''0123456789'' ! (n mod 10)])"

declare digits.simps [simp del]

definition show_int :: "int \<Rightarrow> string" where
  "show_int i = (if i < 0 then CHR ''-'' # digits (nat (- i)) else digits (nat i))"

section \<open>Data of the services and of their collaborators\<close>

subsection \<open>Tokens, quotes and melt responses (cashu-ts)\<close>

record cashu_proof =
  p_amount :: "int option"
  p_secret :: string

record token_entry =
  e_proofs :: "cashu_proof list option"
  e_mint :: string

text \<open>
  What \<open>getDecodedToken\<close> returns: a v3 token carries \<open>proofs\<close> and \<open>mint\<close>, a v1 token
  carries \<open>token[0].proofs\<close> and \<open>token[0].mint\<close>.
\<close>

record decoded_token =
  d_proofs :: "cashu_proof list option"
  d_mint :: string
  d_token :: "token_entry list option"

record token_structure =
  s_proofs :: "cashu_proof list option"
  s_mint :: string

record token_data =
  td_mint :: string
  td_totalAmount :: int
  td_numProofs :: nat
  td_denominations :: "int option list"
  td_proofs :: "cashu_proof list"
  td_format :: string

record melt_quote =
  q_quote :: string
  q_amount :: int
  q_fee_reserve :: int

record melt_response =
  r_paid :: jsval
  r_payment_preimage :: jsval
  r_preimage :: jsval
  r_state :: jsval
  r_fee_paid :: "int option"
  r_fee :: "int option"
  r_change :: "cashu_proof list option"

record melt_result =
  m_success :: bool
  m_paid :: jsval
  m_preimage :: jsval
  m_change :: "cashu_proof list"
  m_amount :: int
  m_fee :: int
  m_actualFee :: int
  m_netAmount :: int
  m_quote :: string
  m_rawMeltResponse :: melt_response

record check_result =
  c_spendable :: "bool list option"
  c_pending :: "bool list option"

record spendability =
  sp_spendable :: "bool list"
  sp_pending :: "bool list"
  sp_mintUrl :: string
  sp_totalAmount :: int

text \<open>An error object thrown by \<open>mint.check\<close>, with the fields the handler reads.\<close>

record js_error =
  err_constructor_name :: string
  err_message :: string
  err_response :: "(int option \<times> string) option"
  err_status :: "int option"

definition Error :: "string \<Rightarrow> js_error" where
  "Error msg =
     \<lparr>err_constructor_name = ''Error'', err_message = msg, err_response = None, err_status = None\<rparr>"

subsection \<open>LNURLp responses (axios)\<close>

record lnurl_data =
  d_status :: "string option"
  d_reason :: "string option"
  d_callback :: "string option"
  d_minSendable :: "int option"
  d_maxSendable :: "int option"
  d_pr :: "string option"
  d_successAction :: "string option"
  d_verify :: "string option"

record http_response =
  http_status :: int
  http_statusText :: string
  http_data :: lnurl_data

record axios_error =
  ax_code :: "string option"
  ax_message :: string

record invoice_response =
  i_bolt11 :: string
  i_successAction :: "string option"
  i_verify :: "string option"

record invoice_data =
  inv_bolt11 :: string
  inv_amount :: int
  inv_amountMsats :: int
  inv_lightningAddress :: string
  inv_domain :: string
  inv_successAction :: "string option"
  inv_lnurlpResponse :: lnurl_data

subsection \<open>The redemption ledger\<close>

datatype status =
  Processing | ParsingToken | CheckingSpendability | ResolvingInvoice | MeltingToken | Paid | Failed

text \<open>
  The constructors stand for the strings \<open>'processing'\<close>, \<open>'parsing_token'\<close>,
  \<open>'checking_spendability'\<close>, \<open>'resolving_invoice'\<close>, \<open>'melting_token'\<close>, \<open>'paid'\<close> and
  \<open>'failed'\<close>.  A field \<open>f\<close> of a record is written with a prefix that names the
  record (\<open>rd_status\<close> is \<open>redemption.status\<close>).  Times are milliseconds since the epoch (the source stores ISO strings and
  reads them back with \<open>new Date\<close>).  A field that an update may add later is \<open>None\<close>
  until then.
\<close>

record redemption =
  rd_status :: status
  rd_token :: string
  rd_tokenHash :: string
  rd_lightningAddress :: string
  rd_usingDefaultAddress :: bool
  rd_amount :: "int option"
  rd_paid :: jsval
  rd_error :: "string option"
  rd_createdAt :: int
  rd_updatedAt :: int
  rd_mint :: "string option"
  rd_numProofs :: "nat option"
  rd_expectedFee :: "int option"
  rd_netAmountAfterFee :: "int option"
  rd_format :: "string option"
  rd_bolt11 :: "string option"
  rd_domain :: "string option"
  rd_invoiceAmount :: "int option"
  rd_preimage :: jsval
  rd_fee :: "int option"
  rd_actualFee :: "int option"
  rd_netAmount :: "int option"
  rd_change :: "cashu_proof list option"
  rd_paidAt :: "int option"
  rd_rawMeltResponse :: "melt_response option"

subsection \<open>Network calls and the state of the process\<close>

text \<open>
  Every request that leaves the process is logged: \<open>mint.getInfo()\<close>, \<open>mint.check\<close>,
  \<open>wallet.createMeltQuote\<close>, \<open>wallet.meltTokens\<close>, the \<open>axios.get\<close> of the LNURLp endpoint
  and the \<open>axios.get\<close> of the invoice callback (callback URL, \<open>amount\<close> parameter in
  millisatoshis, \<open>comment\<close> parameter).
\<close>

datatype network_call =
    MintGetInfo string
  | MintCheck string "string list"
  | CreateMeltQuote string string
  | MeltTokens string melt_quote "cashu_proof list option"
  | LnurlpGet string
  | InvoiceGet string int "string option"

text \<open>
  The mutable state of the three singletons: the mint and wallet caches of
  \<open>CashuService\<close> (the keys of the two Maps), the two Maps of \<open>RedemptionService\<close>
  (entries in insertion order), and the log of network calls made so far.
\<close>

record system =
  mints :: "string list"
  wallets :: "string list"
  redemptions :: "(string \<times> redemption) list"
  tokenHashes :: "(string \<times> string) list"
  network :: "network_call list"

text \<open>
  The collaborators.  \<open>sha256_hex16\<close> is the first 16 hex digits of the SHA-256 digest,
  \<open>getDecodedToken\<close> the token codec of cashu-ts and \<open>URL_valid\<close> whether \<open>new URL\<close>
  accepts a string; these three are local.  The others answer a network call; each is
  given the log of the calls made before it, so that a collaborator may answer the same
  request differently at different times.  \<open>Inl\<close> is a thrown error.
\<close>

record world =
  sha256_hex16 :: "string \<Rightarrow> string"
  getDecodedToken :: "string \<Rightarrow> string + decoded_token option"
  URL_valid :: "string \<Rightarrow> bool"
  mint_getInfo :: "network_call list \<Rightarrow> string \<Rightarrow> string + unit"
  mint_check :: "network_call list \<Rightarrow> string \<Rightarrow> string list \<Rightarrow> js_error + check_result"
  wallet_createMeltQuote :: "network_call list \<Rightarrow> string \<Rightarrow> string \<Rightarrow> string + melt_quote"
  wallet_meltTokens ::
    "network_call list \<Rightarrow> string \<Rightarrow> melt_quote \<Rightarrow> cashu_proof list option
       \<Rightarrow> string + melt_response"
  axios_get_lnurlp :: "network_call list \<Rightarrow> string \<Rightarrow> axios_error + http_response"
  axios_get_invoice ::
    "network_call list \<Rightarrow> string \<Rightarrow> int \<Rightarrow> string option \<Rightarrow> axios_error + http_response"

definition call :: "network_call \<Rightarrow> system \<Rightarrow> system" where
  "call c s = s\<lparr>network := network s @ [c]\<rparr>"

section \<open>CashuService\<close>

text \<open>
  An \<open>async\<close> function that may throw returns \<open>Inl message\<close> for the thrown error or
  \<open>Inr value\<close>; one that also touches the caches or the network takes the state and
  returns the new one.  \<open>rethrow p\<close> is \<open>catch (error) { throw new Error(p + error.message) }\<close>.
\<close>

definition rethrow :: "string \<Rightarrow> string + 'a \<Rightarrow> string + 'a" where
  "rethrow p r = (case r of Inl e \<Rightarrow> Inl (p @ e) | Inr v \<Rightarrow> Inr v)"

text \<open>\<open>/^cashu[abAB][a-zA-Z0-9-_]+$/\<close>\<close>

definition token_char :: "char \<Rightarrow> bool" where
  "token_char c =
     (c \<in> set ''abcdefghijklmnopqrstuvwxyzABCDEFGHIJKLMNOPQRSTUVWXYZ0123456789-_'')"

definition isValidTokenFormat :: "string \<Rightarrow> bool" where
  "isValidTokenFormat t =
     (startsWith t ''cashu'' \<and>
      (case drop 5 t of
         [] \<Rightarrow> False
       | v # payload \<Rightarrow> v \<in> set ''abAB'' \<and> payload \<noteq> [] \<and> list_all token_char payload))"

definition decodeTokenStructure :: "world \<Rightarrow> string \<Rightarrow> string + token_structure" where
  "decodeTokenStructure w t =
     rethrow ''Token decoding failed: ''
       (case getDecodedToken w t of
          Inl e \<Rightarrow> Inl e
        | Inr None \<Rightarrow> Inl ''Failed to decode token''
        | Inr (Some decoded) \<Rightarrow>
            (case d_proofs decoded of
               Some ps \<Rightarrow> Inr \<lparr>s_proofs = Some ps, s_mint = d_mint decoded\<rparr>
             | None \<Rightarrow>
                 (case d_token decoded of
                    Some (e # es) \<Rightarrow> Inr \<lparr>s_proofs = e_proofs e, s_mint = e_mint e\<rparr>
                  | Some [] \<Rightarrow> Inl ''Invalid token structure''
                  | None \<Rightarrow> Inl ''Invalid token structure'')))"

text \<open>
  \<^verbatim>\<open>
  calculateFee(amount) {
    const fee = Math.ceil(amount * 0.02);
    return Math.max(1, fee);
  }
  \<close>
\<close>

definition calculateFee :: "int \<Rightarrow> int" where
  "calculateFee amt =
     (let fee = Math_ceil (number_times (number_of_int amt) literal_0_02)
      in max 1 fee)"

text \<open>\<open>proof.amount || 0\<close>\<close>

definition amount_or_0 :: "cashu_proof \<Rightarrow> int" where
  "amount_or_0 p = (case p_amount p of Some a \<Rightarrow> a | None \<Rightarrow> 0)"

definition parseToken :: "world \<Rightarrow> string \<Rightarrow> string + token_data" where
  "parseToken w t0 =
     rethrow ''Token parsing failed: ''
       (if t0 = [] then Inl ''Invalid token format''
        else
          let t = trim t0
          in if \<not> isValidTokenFormat t
             then Inl ''Invalid token format. Must be a valid Cashu token''
             else
               (case decodeTokenStructure w t of
                  Inl e \<Rightarrow> Inl e
                | Inr decoded \<Rightarrow>
                    (case s_proofs decoded of
                       None \<Rightarrow> Inl ''Invalid token structure - no proofs found''
                     | Some [] \<Rightarrow> Inl ''Invalid token structure - no proofs found''
                     | Some (p # ps) \<Rightarrow>
                         let total = foldl (\<lambda>sum q. sum + amount_or_0 q) 0 (p # ps)
                         in if total \<le> 0 then Inl ''Token has no value''
                            else Inr \<lparr>td_mint = s_mint decoded,
                                      td_totalAmount = total,
                                      td_numProofs = length (p # ps),
                                      td_denominations = map p_amount (p # ps),
                                      td_proofs = p # ps,
                                      td_format =
                                        (if startsWith t ''cashuA'' then ''cashuA''
                                         else ''cashuB'')\<rparr>)))"

text \<open>
  \<open>getMint\<close>: a mint not yet in the cache is contacted (\<open>mint.getInfo()\<close>) and cached
  when it answers.  The mint and the wallet instance are represented by the mint URL.
\<close>

definition getMint :: "world \<Rightarrow> string \<Rightarrow> system \<Rightarrow> (string + string) \<times> system" where
  "getMint w url s =
     (if url \<in> set (mints s) then (Inr url, s)
      else
        (case mint_getInfo w (network s) url of
           Inl e \<Rightarrow>
             (Inl (''Failed to connect to mint '' @ url @ '': '' @ e), call (MintGetInfo url) s)
         | Inr u \<Rightarrow>
             (Inr url, (call (MintGetInfo url) s)\<lparr>mints := mints s @ [url]\<rparr>)))"

definition getWallet :: "world \<Rightarrow> string \<Rightarrow> system \<Rightarrow> (string + string) \<times> system" where
  "getWallet w url s =
     (if url \<in> set (wallets s) then (Inr url, s)
      else
        (case getMint w url s of
           (Inl e, s1) \<Rightarrow>
             (Inl (''Failed to create wallet for mint '' @ url @ '': '' @ e), s1)
         | (Inr m, s1) \<Rightarrow> (Inr url, s1\<lparr>wallets := wallets s1 @ [url]\<rparr>)))"

text \<open>
  \<open>meltToken\<close>, the settlement signals.  From the response of \<open>wallet.meltTokens\<close>:
  \<^verbatim>\<open>
  const paymentSuccessful = meltResponse.paid === true ||
                           meltResponse.payment_preimage ||
                           meltResponse.preimage ||
                           (meltResponse.state && meltResponse.state === 'PAID');
  \<close>
  A failed verification is only logged (\<open>console.warn\<close>); the result is returned either way.
\<close>

definition paymentSuccessful :: "melt_response \<Rightarrow> jsval" where
  "paymentSuccessful r =
     js_or (js_or (js_or (JBool (r_paid r = JBool True)) (r_payment_preimage r)) (r_preimage r))
       (js_and (r_state r) (JBool (r_state r = JStr ''PAID'')))"

text \<open>\<open>a || b\<close> on a fee that is a Number or missing.\<close>

definition num_or :: "int option \<Rightarrow> int \<Rightarrow> int" where
  "num_or a b = (case a of Some n \<Rightarrow> if n \<noteq> 0 then n else b | None \<Rightarrow> b)"

definition actualFeeCharged :: "melt_response \<Rightarrow> melt_quote \<Rightarrow> int" where
  "actualFeeCharged r q = num_or (r_fee_paid r) (num_or (r_fee r) (q_fee_reserve q))"

definition melt_result_of :: "token_data \<Rightarrow> melt_quote \<Rightarrow> melt_response \<Rightarrow> melt_result" where
  "melt_result_of parsed q r =
     \<lparr>m_success = True,
      m_paid = paymentSuccessful r,
      m_preimage = js_or (r_payment_preimage r) (r_preimage r),
      m_change = (case r_change r of Some c \<Rightarrow> c | None \<Rightarrow> []),
      m_amount = q_amount q,
      m_fee = actualFeeCharged r q,
      m_actualFee = calculateFee (td_totalAmount parsed),
      m_netAmount = td_totalAmount parsed - actualFeeCharged r q,
      m_quote = q_quote q,
      m_rawMeltResponse = r\<rparr>"

definition insufficient_funds_message :: "int \<Rightarrow> int \<Rightarrow> int \<Rightarrow> string" where
  "insufficient_funds_message totalRequired reserve available =
     ''Insufficient funds. Required: '' @ show_int totalRequired @ '' sats (including ''
       @ show_int reserve @ '' sats fee), Available: '' @ show_int available @ '' sats''"

definition meltToken_try :: "world \<Rightarrow> string \<Rightarrow> string \<Rightarrow> system \<Rightarrow> (string + melt_result) \<times> system"
  where
  "meltToken_try w t invoice s =
     (case parseToken w t of
        Inl e \<Rightarrow> (Inl e, s)
      | Inr parsed \<Rightarrow>
          (case getWallet w (td_mint parsed) s of
             (Inl e, s1) \<Rightarrow> (Inl e, s1)
           | (Inr wallet, s1) \<Rightarrow>
               (case decodeTokenStructure w t of
                  Inl e \<Rightarrow> (Inl e, s1)
                | Inr decoded \<Rightarrow>
                    (case wallet_createMeltQuote w (network s1) wallet invoice of
                       Inl e \<Rightarrow> (Inl e, call (CreateMeltQuote wallet invoice) s1)
                     | Inr meltQuote \<Rightarrow>
                         let s2 = call (CreateMeltQuote wallet invoice) s1;
                             totalRequired = q_amount meltQuote + q_fee_reserve meltQuote
                         in if td_totalAmount parsed < totalRequired
                            then (Inl (insufficient_funds_message totalRequired
                                         (q_fee_reserve meltQuote) (td_totalAmount parsed)), s2)
                            else
                              (case wallet_meltTokens w (network s2) wallet meltQuote
                                      (s_proofs decoded) of
                                 Inl e \<Rightarrow>
                                   (Inl e, call (MeltTokens wallet meltQuote (s_proofs decoded)) s2)
                               | Inr meltResponse \<Rightarrow>
                                   (Inr (melt_result_of parsed meltQuote meltResponse),
                                    call (MeltTokens wallet meltQuote (s_proofs decoded)) s2))))))"

definition meltToken_catch :: "string \<Rightarrow> string" where
  "meltToken_catch e =
     (if str_includes e ''Insufficient funds'' \<or> str_includes e ''Payment failed''
         \<or> str_includes e ''Quote not found''
      then e
      else ''Melt operation failed: '' @ e)"

definition meltToken :: "world \<Rightarrow> string \<Rightarrow> string \<Rightarrow> system \<Rightarrow> (string + melt_result) \<times> system"
  where
  "meltToken w t invoice s =
     (case meltToken_try w t invoice s of
        (Inl e, s') \<Rightarrow> (Inl (meltToken_catch e), s')
      | (Inr r, s') \<Rightarrow> (Inr r, s'))"

text \<open>\<open>checkTokenSpendable\<close>: the call, then the handler that words the error.\<close>

definition checkTokenSpendable_try ::
  "world \<Rightarrow> string \<Rightarrow> system \<Rightarrow> (js_error + spendability) \<times> system" where
  "checkTokenSpendable_try w t s =
     (case parseToken w t of
        Inl e \<Rightarrow> (Inl (Error e), s)
      | Inr parsed \<Rightarrow>
          (case getMint w (td_mint parsed) s of
             (Inl e, s1) \<Rightarrow> (Inl (Error e), s1)
           | (Inr m, s1) \<Rightarrow>
               let secrets = map p_secret (td_proofs parsed)
               in (case mint_check w (network s1) m secrets of
                     Inl err \<Rightarrow> (Inl err, call (MintCheck m secrets) s1)
                   | Inr checkResult \<Rightarrow>
                       (Inr \<lparr>sp_spendable =
                               (case c_spendable checkResult of Some l \<Rightarrow> l | None \<Rightarrow> []),
                             sp_pending =
                               (case c_pending checkResult of Some l \<Rightarrow> l | None \<Rightarrow> []),
                             sp_mintUrl = td_mint parsed,
                             sp_totalAmount = td_totalAmount parsed\<rparr>,
                        call (MintCheck m secrets) s1))))"

text \<open>\<open>error.response.status || error.status\<close>, and how a template literal prints it.\<close>

definition response_status :: "js_error \<Rightarrow> int option" where
  "response_status err =
     (case err_response err of
        Some (Some n, txt) \<Rightarrow> if n \<noteq> 0 then Some n else err_status err
      | Some (None, txt) \<Rightarrow> err_status err
      | None \<Rightarrow> err_status err)"

definition show_status :: "int option \<Rightarrow> string" where
  "show_status st = (case st of Some n \<Rightarrow> show_int n | None \<Rightarrow> ''undefined'')"

text \<open>\<open>Error.prototype.toString\<close>\<close>

definition error_toString :: "js_error \<Rightarrow> string" where
  "error_toString err =
     (if err_message err = [] then err_constructor_name err
      else if err_constructor_name err = [] then err_message err
      else err_constructor_name err @ '': '' @ err_message err)"

definition spendability_errorMessage :: "js_error \<Rightarrow> string" where
  "spendability_errorMessage err =
     (if err_constructor_name err = ''HttpResponseError'' then
        (case err_response err of
           Some (st, txt) \<Rightarrow>
             (if response_status err = Some 404
              then ''This mint does not support spendability checking (endpoint not found)''
              else if response_status err = Some 405
              then ''This mint does not support spendability checking (method not allowed)''
              else if response_status err = Some 501
              then ''This mint does not support spendability checking (not implemented)''
              else ''Mint returned HTTP '' @ show_status (response_status err)
                     @ (if txt \<noteq> [] then '': '' @ txt else []))
         | None \<Rightarrow>
             (if err_message err \<noteq> [] \<and> err_message err \<noteq> ''[object Object]''
              then err_message err
              else ''This mint does not support spendability checking or returned an invalid response''))
      else if err_message err \<noteq> [] \<and> err_message err \<noteq> ''[object Object]''
      then err_message err
      else if error_toString err \<noteq> ''[object Object]'' then error_toString err
      else ''Invalid response from mint - spendability checking may not be supported'')"

definition checkTokenSpendable_catch :: "js_error \<Rightarrow> string" where
  "checkTokenSpendable_catch err =
     (let errorMessage = spendability_errorMessage err
      in if str_includes errorMessage ''not supported'' \<or> str_includes errorMessage ''404''
            \<or> str_includes errorMessage ''405'' \<or> str_includes errorMessage ''501''
            \<or> str_includes errorMessage ''Method not allowed''
            \<or> str_includes errorMessage ''endpoint not found''
            \<or> str_includes errorMessage ''not implemented''
            \<or> str_includes errorMessage ''Invalid response from mint''
         then ''This mint does not support spendability checking. Token may still be valid.''
         else ''Failed to check token spendability: '' @ errorMessage)"

definition checkTokenSpendable ::
  "world \<Rightarrow> string \<Rightarrow> system \<Rightarrow> (string + spendability) \<times> system" where
  "checkTokenSpendable w t s =
     (case checkTokenSpendable_try w t s of
        (Inl err, s') \<Rightarrow> (Inl (checkTokenSpendable_catch err), s')
      | (Inr r, s') \<Rightarrow> (Inr r, s'))"

section \<open>LightningService\<close>

text \<open>
  The two fields the constructor reads from the environment
  (\<open>ALLOW_REDEEM_DOMAINS\<close>, \<open>DEFAULT_LIGHTNING_ADDRESS\<close>; \<open>None\<close> is an unset variable).
\<close>

record config =
  allowedDomains :: "string list"
  defaultLightningAddress :: "string option"

definition LightningService :: "string option \<Rightarrow> string option \<Rightarrow> config" where
  "LightningService ALLOW_REDEEM_DOMAINS DEFAULT_LIGHTNING_ADDRESS =
     \<lparr>allowedDomains =
        (case ALLOW_REDEEM_DOMAINS of
           Some v \<Rightarrow> if v \<noteq> [] then map trim (split_on CHR '','' v) else []
         | None \<Rightarrow> []),
      defaultLightningAddress = DEFAULT_LIGHTNING_ADDRESS\<rparr>"

definition getDefaultLightningAddress :: "config \<Rightarrow> string option" where
  "getDefaultLightningAddress cfg =
     (case defaultLightningAddress cfg of
        Some a \<Rightarrow> if a \<noteq> [] then Some a else None
      | None \<Rightarrow> None)"

text \<open>The address of a request is \<open>None\<close> when the request carries none.\<close>

definition useDefaultAddress :: "config \<Rightarrow> string + string" where
  "useDefaultAddress cfg =
     (case getDefaultLightningAddress cfg of
        None \<Rightarrow> Inl ''No Lightning address provided and no default Lightning address configured''
      | Some defaultAddress \<Rightarrow> Inr defaultAddress)"

definition getLightningAddressToUse :: "config \<Rightarrow> string option \<Rightarrow> string + string" where
  "getLightningAddressToUse cfg providedAddress =
     (case providedAddress of
        Some a \<Rightarrow> if a \<noteq> [] \<and> trim a \<noteq> [] then Inr (trim a) else useDefaultAddress cfg
      | None \<Rightarrow> useDefaultAddress cfg)"

text \<open>\<open>/^[^\s@]+@[^\s@]+\.[^\s@]+$/\<close>\<close>

definition email_char :: "char \<Rightarrow> bool" where
  "email_char c = (\<not> js_whitespace c \<and> c \<noteq> CHR ''@'')"

definition emailRegex :: "string \<Rightarrow> bool" where
  "emailRegex a =
     (takeWhile email_char a \<noteq> [] \<and>
      (case dropWhile email_char a of
         [] \<Rightarrow> False
       | c # d \<Rightarrow> c = CHR ''@'' \<and> list_all email_char d \<and> CHR ''.'' \<in> set (butlast (tl d))))"

definition validateLightningAddress :: "string \<Rightarrow> bool" where
  "validateLightningAddress a = (if a = [] then False else emailRegex a)"

definition isDomainAllowed :: "config \<Rightarrow> string \<Rightarrow> bool" where
  "isDomainAllowed cfg d =
     (if length (allowedDomains cfg) = 0 then True
      else if ''*'' \<in> set (allowedDomains cfg) then True
      else toLowerCase d \<in> set (allowedDomains cfg))"

definition parseLightningAddress :: "config \<Rightarrow> string \<Rightarrow> string + string \<times> string" where
  "parseLightningAddress cfg a =
     (if \<not> validateLightningAddress a then Inl ''Invalid Lightning address format''
      else
        (case split_on CHR ''@'' a of
           username # d # rest \<Rightarrow>
             if \<not> isDomainAllowed cfg d
             then Inl (''Domain '' @ d @ '' is not allowed for redemption'')
             else Inr (username, d)
         | _ \<Rightarrow> Inl ''Invalid Lightning address format''))"

definition getLNURLpEndpoint :: "config \<Rightarrow> string \<Rightarrow> string + string" where
  "getLNURLpEndpoint cfg a =
     (case parseLightningAddress cfg a of
        Inl e \<Rightarrow> Inl e
      | Inr (username, d) \<Rightarrow> Inr (''https://'' @ d @ ''/.well-known/lnurlp/'' @ username))"

definition plain_error :: "string \<Rightarrow> axios_error" where
  "plain_error msg = \<lparr>ax_code = None, ax_message = msg\<rparr>"

definition falsy_string :: "string option \<Rightarrow> bool" where
  "falsy_string v = (case v of Some x \<Rightarrow> x = [] | None \<Rightarrow> True)"

definition falsy_number :: "int option \<Rightarrow> bool" where
  "falsy_number v = (case v of Some n \<Rightarrow> n = 0 | None \<Rightarrow> True)"

definition string_or :: "string option \<Rightarrow> string \<Rightarrow> string" where
  "string_or v dflt = (case v of Some x \<Rightarrow> if x \<noteq> [] then x else dflt | None \<Rightarrow> dflt)"

definition http_error_message :: "http_response \<Rightarrow> string" where
  "http_error_message r = ''HTTP '' @ show_int (http_status r) @ '': '' @ http_statusText r"

definition fetchLNURLpResponse_try ::
  "world \<Rightarrow> string \<Rightarrow> system \<Rightarrow> (axios_error + lnurl_data) \<times> system" where
  "fetchLNURLpResponse_try w lnurlpUrl s =
     (case axios_get_lnurlp w (network s) lnurlpUrl of
        Inl err \<Rightarrow> (Inl err, call (LnurlpGet lnurlpUrl) s)
      | Inr r \<Rightarrow>
          (if http_status r \<noteq> 200 then Inl (plain_error (http_error_message r))
           else if d_status (http_data r) = Some ''ERROR''
           then Inl (plain_error (string_or (d_reason (http_data r))
                                    ''LNURLp endpoint returned error''))
           else if falsy_string (d_callback (http_data r))
                   \<or> falsy_number (d_minSendable (http_data r))
                   \<or> falsy_number (d_maxSendable (http_data r))
           then Inl (plain_error ''Invalid LNURLp response - missing required fields'')
           else Inr (http_data r),
           call (LnurlpGet lnurlpUrl) s))"

definition fetchLNURLpResponse ::
  "world \<Rightarrow> string \<Rightarrow> system \<Rightarrow> (string + lnurl_data) \<times> system" where
  "fetchLNURLpResponse w lnurlpUrl s =
     (case fetchLNURLpResponse_try w lnurlpUrl s of
        (Inl err, s') \<Rightarrow>
          (if ax_code err = Some ''ECONNREFUSED'' \<or> ax_code err = Some ''ENOTFOUND''
           then Inl ''Unable to connect to Lightning address provider''
           else Inl (''LNURLp fetch failed: '' @ ax_message err), s')
      | (Inr d, s') \<Rightarrow> (Inr d, s'))"

text \<open>
  \<open>getInvoice\<close>: the request carries \<open>amount\<close> and, for a non-empty comment, its first
  144 characters.
\<close>

definition invoice_of_response :: "http_response \<Rightarrow> string + invoice_response" where
  "invoice_of_response r =
     (if http_status r \<noteq> 200 then Inl (http_error_message r)
      else if d_status (http_data r) = Some ''ERROR''
      then Inl (string_or (d_reason (http_data r)) ''Invoice generation failed'')
      else
        (case d_pr (http_data r) of
           None \<Rightarrow> Inl ''No invoice returned from callback''
         | Some pr \<Rightarrow>
             if pr = [] then Inl ''No invoice returned from callback''
             else Inr \<lparr>i_bolt11 = pr,
                       i_successAction = d_successAction (http_data r),
                       i_verify = d_verify (http_data r)\<rparr>))"

definition getInvoice ::
  "world \<Rightarrow> string option \<Rightarrow> int \<Rightarrow> string \<Rightarrow> system \<Rightarrow> (string + invoice_response) \<times> system"
  where
  "getInvoice w callbackUrl amt comment s =
     (case callbackUrl of
        None \<Rightarrow> (Inl (''Invoice generation failed: '' @ ''Invalid URL''), s)
      | Some u \<Rightarrow>
          if \<not> URL_valid w u then (Inl (''Invoice generation failed: '' @ ''Invalid URL''), s)
          else
            let c = (if comment \<noteq> [] \<and> 0 < length comment then Some (take 144 comment)
                     else None)
            in (rethrow ''Invoice generation failed: ''
                  (case axios_get_invoice w (network s) u amt c of
                     Inl err \<Rightarrow> Inl (ax_message err)
                   | Inr r \<Rightarrow> invoice_of_response r),
                call (InvoiceGet u amt c) s))"

definition satsToMillisats :: "int \<Rightarrow> int" where
  "satsToMillisats sats = sats * 1000"

definition millisatsToSats :: "int \<Rightarrow> int" where
  "millisatsToSats msats = msats div 1000"

text \<open>
  \<open>parseInt\<close> of a bound: the bounds of an LNURLp response are integer Numbers (below
  \<open>1e21\<close>, where the decimal text of a Number is its digits), which \<open>parseInt\<close> returns
  unchanged; of a missing bound it is \<open>NaN\<close>, and every comparison with \<open>NaN\<close> is false.
\<close>

definition parseInt :: "int option \<Rightarrow> int option" where
  "parseInt v = v"

definition validateAmount :: "int \<Rightarrow> lnurl_data \<Rightarrow> bool" where
  "validateAmount amt lnurlp =
     (let amtMsats = satsToMillisats amt;
          minSendable = parseInt (d_minSendable lnurlp);
          maxSendable = parseInt (d_maxSendable lnurlp)
      in (case minSendable of None \<Rightarrow> False | Some mn \<Rightarrow> mn \<le> amtMsats)
         \<and> (case maxSendable of None \<Rightarrow> False | Some mx \<Rightarrow> amtMsats \<le> mx))"

definition show_sats :: "int option \<Rightarrow> string" where
  "show_sats v = (case v of Some msats \<Rightarrow> show_int (millisatsToSats msats) | None \<Rightarrow> ''NaN'')"

definition resolveInvoice_try ::
  "world \<Rightarrow> config \<Rightarrow> string \<Rightarrow> int \<Rightarrow> string \<Rightarrow> system \<Rightarrow> (string + invoice_data) \<times> system"
  where
  "resolveInvoice_try w cfg a amt comment s =
     (case getLNURLpEndpoint cfg a of
        Inl e \<Rightarrow> (Inl e, s)
      | Inr lnurlpUrl \<Rightarrow>
          (case fetchLNURLpResponse w lnurlpUrl s of
             (Inl e, s1) \<Rightarrow> (Inl e, s1)
           | (Inr lnurlp, s1) \<Rightarrow>
               if \<not> validateAmount amt lnurlp
               then (Inl (''Amount '' @ show_int amt @ '' sats is outside allowed range: ''
                           @ show_sats (d_minSendable lnurlp) @ ''-''
                           @ show_sats (d_maxSendable lnurlp) @ '' sats''), s1)
               else
                 (case getInvoice w (d_callback lnurlp) (satsToMillisats amt) comment s1 of
                    (Inl e, s2) \<Rightarrow> (Inl e, s2)
                  | (Inr invoiceResponse, s2) \<Rightarrow>
                      (case parseLightningAddress cfg a of
                         Inl e \<Rightarrow> (Inl e, s2)
                       | Inr (username, d) \<Rightarrow>
                           (Inr \<lparr>inv_bolt11 = i_bolt11 invoiceResponse,
                                 inv_amount = amt,
                                 inv_amountMsats = satsToMillisats amt,
                                 inv_lightningAddress = a,
                                 inv_domain = d,
                                 inv_successAction = i_successAction invoiceResponse,
                                 inv_lnurlpResponse = lnurlp\<rparr>, s2)))))"

definition resolveInvoice ::
  "world \<Rightarrow> config \<Rightarrow> string \<Rightarrow> int \<Rightarrow> string \<Rightarrow> system \<Rightarrow> (string + invoice_data) \<times> system"
  where
  "resolveInvoice w cfg a amt comment s =
     (case resolveInvoice_try w cfg a amt comment s of
        (r, s') \<Rightarrow> (rethrow ''Lightning address resolution failed: '' r, s'))"

section \<open>RedemptionService\<close>

definition generateTokenHash :: "world \<Rightarrow> string \<Rightarrow> string" where
  "generateTokenHash w t = sha256_hex16 w t"

text \<open>
  The two Maps are association lists with \<open>Map.set\<close> as \<open>AList.update\<close> (an existing key
  keeps its place, a new key goes to the end) and \<open>Map.delete\<close> as \<open>AList.delete\<close>.
  \<open>now\<close> is the reading of the clock (\<open>new Date()\<close>); one run of a function reads one time.
\<close>

definition storeRedemption :: "int \<Rightarrow> string \<Rightarrow> redemption \<Rightarrow> system \<Rightarrow> system" where
  "storeRedemption now redeemId st s =
     s\<lparr>redemptions :=
         AList.update redeemId (st\<lparr>rd_createdAt := now, rd_updatedAt := now\<rparr>) (redemptions s)\<rparr>"

text \<open>An update \<open>{...existing, ...updates}\<close> is the function that overwrites the fields.\<close>

definition updateRedemption ::
  "int \<Rightarrow> string \<Rightarrow> (redemption \<Rightarrow> redemption) \<Rightarrow> system \<Rightarrow> system" where
  "updateRedemption now redeemId updates s =
     (case map_of (redemptions s) redeemId of
        None \<Rightarrow> s
      | Some existing \<Rightarrow>
          s\<lparr>redemptions :=
              AList.update redeemId ((updates existing)\<lparr>rd_updatedAt := now\<rparr>) (redemptions s)\<rparr>)"

definition getRedemption :: "system \<Rightarrow> string \<Rightarrow> redemption option" where
  "getRedemption s redeemId = map_of (redemptions s) redeemId"

definition getRedemptionByTokenHash :: "system \<Rightarrow> string \<Rightarrow> redemption option" where
  "getRedemptionByTokenHash s h =
     (case map_of (tokenHashes s) h of
        None \<Rightarrow> None
      | Some redeemId \<Rightarrow> if redeemId \<noteq> [] then getRedemption s redeemId else None)"

definition checkExistingRedemption :: "world \<Rightarrow> system \<Rightarrow> string \<Rightarrow> redemption option" where
  "checkExistingRedemption w s t = getRedemptionByTokenHash s (generateTokenHash w t)"

record validation =
  valid :: bool
  errors :: "string list"
  tokenData :: "token_data option"
  lightningAddressToUse :: "string option"

text \<open>
  The token of a request is a string; the empty string also stands for a request without
  a token (both are falsy).
\<close>

definition address_errors :: "config \<Rightarrow> string option \<Rightarrow> string list" where
  "address_errors cfg providedAddress =
     (case getLightningAddressToUse cfg providedAddress of
        Inl e \<Rightarrow> [e]
      | Inr a \<Rightarrow> if \<not> validateLightningAddress a then [''Invalid Lightning address format''] else [])"

definition existing_errors :: "world \<Rightarrow> system \<Rightarrow> string \<Rightarrow> string list" where
  "existing_errors w s t =
     (if t \<noteq> [] then
        (case checkExistingRedemption w s t of
           Some existing \<Rightarrow> [''Token has already been redeemed'']
         | None \<Rightarrow> [])
      else [])"

definition validateRedemptionRequest ::
  "world \<Rightarrow> config \<Rightarrow> system \<Rightarrow> string \<Rightarrow> string option \<Rightarrow> validation" where
  "validateRedemptionRequest w cfg s t providedAddress =
     (let errs = (if t = [] then [''Token is required and must be a string''] else [])
                 @ address_errors cfg providedAddress
                 @ existing_errors w s t;
          addressToUse = (case getLightningAddressToUse cfg providedAddress of
                            Inl e \<Rightarrow> None | Inr a \<Rightarrow> Some a);
          parsed = (if t \<noteq> [] \<and> length errs = 0 then Some (parseToken w t) else None);
          errs' = errs @ (case parsed of
                            Some (Inr td) \<Rightarrow>
                              if td_totalAmount td \<le> 0 then [''Token has no value''] else []
                          | Some (Inl e) \<Rightarrow> [''Invalid token: '' @ e]
                          | None \<Rightarrow> [])
      in \<lparr>valid = (length errs' = 0),
          errors = errs',
          tokenData = (case parsed of Some (Inr td) \<Rightarrow> Some td | Some (Inl e) \<Rightarrow> None | None \<Rightarrow> None),
          lightningAddressToUse = addressToUse\<rparr>)"

text \<open>
  \<open>performRedemption\<close>.  \<open>redeemId\<close> is the identifier \<open>uuidv4()\<close> returns.  The body of
  the \<open>try\<close> is written stage by stage, last stage first; each stage returns \<open>Inl\<close> for
  an error thrown in it.
\<close>

record redeem_success =
  res_redeemId :: string
  res_paid :: jsval
  res_amount :: int
  res_invoiceAmount :: int
  res_to :: string
  res_usingDefaultAddress :: bool
  res_fee :: int
  res_actualFee :: int
  res_netAmount :: int
  res_preimage :: jsval
  res_change :: "cashu_proof list"
  res_mint :: string
  res_format :: string

datatype redeem_result = Success redeem_success | Failure string string

definition initial_redemption :: "string \<Rightarrow> string \<Rightarrow> string \<Rightarrow> bool \<Rightarrow> redemption" where
  "initial_redemption t h a usingDefault =
     \<lparr>rd_status = Processing,
      rd_token = take 50 t @ ''...'',
      rd_tokenHash = h,
      rd_lightningAddress = a,
      rd_usingDefaultAddress = usingDefault,
      rd_amount = None,
      rd_paid = JBool False,
      rd_error = None,
      rd_createdAt = 0,
      rd_updatedAt = 0,
      rd_mint = None,
      rd_numProofs = None,
      rd_expectedFee = None,
      rd_netAmountAfterFee = None,
      rd_format = None,
      rd_bolt11 = None,
      rd_domain = None,
      rd_invoiceAmount = None,
      rd_preimage = JUndefined,
      rd_fee = None,
      rd_actualFee = None,
      rd_netAmount = None,
      rd_change = None,
      rd_paidAt = None,
      rd_rawMeltResponse = None\<rparr>"

text \<open>
  \<^verbatim>\<open>
  const paymentSuccessful = meltResult.paid || !!meltResult.preimage;
  this.updateRedemption(redeemId, { status: paymentSuccessful ? 'paid' : 'failed', ... });
  return { success: true, redeemId, paid: paymentSuccessful, ... };
  \<close>
\<close>

definition settled :: "melt_result \<Rightarrow> jsval" where
  "settled meltResult = js_or (m_paid meltResult) (JBool (truthy (m_preimage meltResult)))"

definition final_update :: "int \<Rightarrow> melt_result \<Rightarrow> redemption \<Rightarrow> redemption" where
  "final_update now meltResult r =
     r\<lparr>rd_status := (if truthy (settled meltResult) then Paid else Failed),
       rd_paid := settled meltResult,
       rd_preimage := m_preimage meltResult,
       rd_fee := Some (m_fee meltResult),
       rd_actualFee := Some (m_actualFee meltResult),
       rd_netAmount := Some (m_netAmount meltResult),
       rd_change := Some (m_change meltResult),
       rd_paidAt := (if truthy (settled meltResult) then Some now else None),
       rd_rawMeltResponse := Some (m_rawMeltResponse meltResult)\<rparr>"

definition finish_redemption ::
  "int \<Rightarrow> string \<Rightarrow> token_data \<Rightarrow> int \<Rightarrow> string \<Rightarrow> bool \<Rightarrow> melt_result \<Rightarrow> system
     \<Rightarrow> redeem_success \<times> system" where
  "finish_redemption now redeemId td net a usingDefault meltResult s =
     (\<lparr>res_redeemId = redeemId,
       res_paid = settled meltResult,
       res_amount = td_totalAmount td,
       res_invoiceAmount = net,
       res_to = a,
       res_usingDefaultAddress = usingDefault,
       res_fee = m_fee meltResult,
       res_actualFee = m_actualFee meltResult,
       res_netAmount = m_netAmount meltResult,
       res_preimage = m_preimage meltResult,
       res_change = m_change meltResult,
       res_mint = td_mint td,
       res_format = td_format td\<rparr>,
      updateRedemption now redeemId (final_update now meltResult) s)"

definition melting_stage ::
  "world \<Rightarrow> int \<Rightarrow> string \<Rightarrow> string \<Rightarrow> token_data \<Rightarrow> int \<Rightarrow> string \<Rightarrow> bool \<Rightarrow> invoice_data
     \<Rightarrow> system \<Rightarrow> (string + redeem_success) \<times> system" where
  "melting_stage w now redeemId t td net a usingDefault invoiceData s =
     (case meltToken w t (inv_bolt11 invoiceData)
             (updateRedemption now redeemId (\<lambda>r. r\<lparr>rd_status := MeltingToken\<rparr>) s) of
        (Inl e, s') \<Rightarrow> (Inl e, s')
      | (Inr meltResult, s') \<Rightarrow>
          (case finish_redemption now redeemId td net a usingDefault meltResult s' of
             (res, s'') \<Rightarrow> (Inr res, s'')))"

definition invoice_stage ::
  "world \<Rightarrow> config \<Rightarrow> int \<Rightarrow> string \<Rightarrow> string \<Rightarrow> token_data \<Rightarrow> int \<Rightarrow> string \<Rightarrow> bool
     \<Rightarrow> system \<Rightarrow> (string + redeem_success) \<times> system" where
  "invoice_stage w cfg now redeemId t td net a usingDefault s =
     (case resolveInvoice w cfg a net ''Cashu redemption''
             (updateRedemption now redeemId (\<lambda>r. r\<lparr>rd_status := ResolvingInvoice\<rparr>) s) of
        (Inl e, s') \<Rightarrow> (Inl e, s')
      | (Inr invoiceData, s') \<Rightarrow>
          melting_stage w now redeemId t td net a usingDefault invoiceData
            (updateRedemption now redeemId
               (\<lambda>r. r\<lparr>rd_bolt11 := Some (take 50 (inv_bolt11 invoiceData) @ ''...''),
                       rd_domain := Some (inv_domain invoiceData),
                       rd_invoiceAmount := Some net\<rparr>) s'))"

text \<open>
  The spendability check is advisory: an empty \<open>spendable\<close> list, or an error whose message
  names a spent token, ends the attempt; any other error is logged and the attempt goes on.
\<close>

definition spendability_check :: "world \<Rightarrow> string \<Rightarrow> system \<Rightarrow> (string + unit) \<times> system" where
  "spendability_check w t s =
     (case checkTokenSpendable w t s of
        (Inl e, s') \<Rightarrow> (Inl e, s')
      | (Inr spendabilityCheck, s') \<Rightarrow>
          if length (sp_spendable spendabilityCheck) = 0
          then (Inl ''Token proofs are not spendable - they have already been used or are invalid'', s')
          else (Inr (), s'))"

definition spendability_stage ::
  "world \<Rightarrow> config \<Rightarrow> int \<Rightarrow> string \<Rightarrow> string \<Rightarrow> token_data \<Rightarrow> int \<Rightarrow> string \<Rightarrow> bool
     \<Rightarrow> system \<Rightarrow> (string + redeem_success) \<times> system" where
  "spendability_stage w cfg now redeemId t td net a usingDefault s =
     (case spendability_check w t
             (updateRedemption now redeemId (\<lambda>r. r\<lparr>rd_status := CheckingSpendability\<rparr>) s) of
        (Inl spendError, s') \<Rightarrow>
          if str_includes spendError ''not spendable'' \<or> str_includes spendError ''already been used''
             \<or> str_includes spendError ''invalid proofs'' \<or> str_includes spendError ''422''
          then (Inl ''This token has already been spent and cannot be redeemed again'', s')
          else invoice_stage w cfg now redeemId t td net a usingDefault s'
      | (Inr u, s') \<Rightarrow> invoice_stage w cfg now redeemId t td net a usingDefault s')"

definition insufficient_message :: "int \<Rightarrow> int \<Rightarrow> string" where
  "insufficient_message totalAmt fee =
     ''Token amount ('' @ show_int totalAmt @ '' sats) is insufficient to cover the minimum fee (''
       @ show_int fee @ '' sats)''"

definition parsing_stage ::
  "world \<Rightarrow> config \<Rightarrow> int \<Rightarrow> string \<Rightarrow> string \<Rightarrow> string \<Rightarrow> bool
     \<Rightarrow> system \<Rightarrow> (string + redeem_success) \<times> system" where
  "parsing_stage w cfg now redeemId t a usingDefault s =
     (let s1 = updateRedemption now redeemId (\<lambda>r. r\<lparr>rd_status := ParsingToken\<rparr>) s
      in (case parseToken w t of
            Inl e \<Rightarrow> (Inl e, s1)
          | Inr td \<Rightarrow>
              let fee = calculateFee (td_totalAmount td);
                  netAmountAfterFee = td_totalAmount td - fee
              in if netAmountAfterFee \<le> 0
                 then (Inl (insufficient_message (td_totalAmount td) fee), s1)
                 else spendability_stage w cfg now redeemId t td netAmountAfterFee a usingDefault
                        (updateRedemption now redeemId
                           (\<lambda>r. r\<lparr>rd_amount := Some (td_totalAmount td),
                                   rd_mint := Some (td_mint td),
                                   rd_numProofs := Some (td_numProofs td),
                                   rd_expectedFee := Some fee,
                                   rd_netAmountAfterFee := Some netAmountAfterFee,
                                   rd_format := Some (td_format td)\<rparr>) s1)))"

text \<open>
  The first lines of the \<open>try\<close>: the address is chosen, the attempt is stored and the token
  hash is mapped to it.
\<close>

definition isUsingDefault :: "string option \<Rightarrow> bool" where
  "isUsingDefault providedAddress =
     (case providedAddress of Some a \<Rightarrow> a = [] \<or> trim a = [] | None \<Rightarrow> True)"

definition register_attempt ::
  "world \<Rightarrow> int \<Rightarrow> string \<Rightarrow> string \<Rightarrow> string \<Rightarrow> bool \<Rightarrow> system \<Rightarrow> system" where
  "register_attempt w now redeemId t a usingDefault s =
     (let s1 = storeRedemption now redeemId
                 (initial_redemption t (generateTokenHash w t) a usingDefault) s
      in s1\<lparr>tokenHashes := AList.update (generateTokenHash w t) redeemId (tokenHashes s1)\<rparr>)"

definition performRedemption_try ::
  "world \<Rightarrow> config \<Rightarrow> int \<Rightarrow> string \<Rightarrow> string \<Rightarrow> string option
     \<Rightarrow> system \<Rightarrow> (string + redeem_success) \<times> system" where
  "performRedemption_try w cfg now redeemId t providedAddress s =
     (case getLightningAddressToUse cfg providedAddress of
        Inl e \<Rightarrow> (Inl e, s)
      | Inr a \<Rightarrow>
          parsing_stage w cfg now redeemId t a (isUsingDefault providedAddress)
            (register_attempt w now redeemId t a (isUsingDefault providedAddress) s))"

definition performRedemption ::
  "world \<Rightarrow> config \<Rightarrow> int \<Rightarrow> string \<Rightarrow> string \<Rightarrow> string option
     \<Rightarrow> system \<Rightarrow> redeem_result \<times> system" where
  "performRedemption w cfg now redeemId t providedAddress s =
     (case performRedemption_try w cfg now redeemId t providedAddress s of
        (Inr res, s') \<Rightarrow> (Success res, s')
      | (Inl e, s') \<Rightarrow>
          (Failure redeemId e,
           updateRedemption now redeemId
             (\<lambda>r. r\<lparr>rd_status := Failed, rd_paid := JBool False, rd_error := Some e\<rparr>) s'))"

text \<open>\<open>cleanupOldRedemptions\<close>: the loop over the entries of the ledger.\<close>

fun cleanup_loop :: "int \<Rightarrow> (string \<times> redemption) list \<Rightarrow> system \<Rightarrow> system" where
  "cleanup_loop cutoff [] s = s"
| "cleanup_loop cutoff ((redeemId, r) # entries) s =
     cleanup_loop cutoff entries
       (if rd_createdAt r < cutoff then
          (let s1 = s\<lparr>redemptions := AList.delete redeemId (redemptions s)\<rparr>
           in if rd_tokenHash r \<noteq> []
              then s1\<lparr>tokenHashes := AList.delete (rd_tokenHash r) (tokenHashes s1)\<rparr>
              else s1)
        else s)"

definition cleanupOldRedemptions :: "int \<Rightarrow> int option \<Rightarrow> system \<Rightarrow> system" where
  "cleanupOldRedemptions now maxAgeMs s =
     (let cutoff = now - (case maxAgeMs of Some m \<Rightarrow> m | None \<Rightarrow> 24 * 60 * 60 * 1000)
      in cleanup_loop cutoff (redemptions s) s)"

section \<open>The route \<open>POST /api/redeem\<close>\<close>

text \<open>
  The handler validates the request and answers 400 with the joined errors when it is
  not valid; otherwise it runs \<open>performRedemption\<close> and answers 200 with the result or
  400 with its error.
\<close>

datatype reply =
    Redeemed redeem_success
  | ValidationRejected string
  | RedemptionFailed string string

definition redeem_route ::
  "world \<Rightarrow> config \<Rightarrow> int \<Rightarrow> string \<Rightarrow> string \<Rightarrow> string option \<Rightarrow> system \<Rightarrow> reply \<times> system"
  where
  "redeem_route w cfg now redeemId t providedAddress s =
     (let validation = validateRedemptionRequest w cfg s t providedAddress
      in if \<not> valid validation then (ValidationRejected (join_comma (errors validation)), s)
         else
           (case performRedemption w cfg now redeemId t providedAddress s of
              (Success res, s') \<Rightarrow> (Redeemed res, s')
            | (Failure rid e, s') \<Rightarrow> (RedemptionFailed e rid, s')))"

section \<open>Observations on a run\<close>

text \<open>The \<open>amount\<close> parameters of the invoice requests in a log, in order.\<close>

fun invoice_amounts :: "network_call list \<Rightarrow> int list" where
  "invoice_amounts [] = []"
| "invoice_amounts (InvoiceGet u amt c # cs) = amt # invoice_amounts cs"
| "invoice_amounts (other # cs) = invoice_amounts cs"

text \<open>The number of \<open>wallet.meltTokens\<close> calls in a log.\<close>

fun melt_count :: "network_call list \<Rightarrow> nat" where
  "melt_count [] = 0"
| "melt_count (MeltTokens m q ps # cs) = Suc (melt_count cs)"
| "melt_count (other # cs) = melt_count cs"


text \<open>The four settlement signals of a melt response.\<close>

definition settlement_signal :: "melt_response \<Rightarrow> bool" where
  "settlement_signal r =
     (r_paid r = JBool True \<or> truthy (r_payment_preimage r) \<or> truthy (r_preimage r)
      \<or> r_state r = JStr ''PAID'')"

text \<open>The destination recorded for an attempt: its address and whether it is the default.\<close>

definition destination :: "redemption \<Rightarrow> string \<times> bool" where
  "destination r = (rd_lightningAddress r, rd_usingDefaultAddress r)"

text \<open>
  A run that ended in state \<open>s'\<close> submitted the token for melting as its last network call,
  and the outcome follows the mint's answer: an error is rethrown by \<open>meltToken\<close>; a
  response \<open>r\<close> gives a result whose \<open>paid\<close> is truthy exactly when \<open>r\<close> carries a
  settlement signal, and leaves the attempt \<open>rid\<close> \<open>Paid\<close> when it does and \<open>Failed\<close> when
  it does not.
\<close>

definition classified_by_melt ::
  "world \<Rightarrow> string \<Rightarrow> string + redeem_success \<Rightarrow> system \<Rightarrow> bool" where
  "classified_by_melt w rid result s' =
     (\<exists>before wallet q proofs.
        network s' = before @ [MeltTokens wallet q proofs]
        \<and> (case wallet_meltTokens w before wallet q proofs of
             Inl e \<Rightarrow> result = Inl (meltToken_catch e)
           | Inr r \<Rightarrow>
               (\<exists>res. result = Inr res \<and> truthy (res_paid res) = settlement_signal r)
               \<and> (\<exists>x. getRedemption s' rid = Some x
                      \<and> rd_status x = (if settlement_signal r then Paid else Failed))))"


text \<open>The token hashes of the entries a sweep with the given cutoff removes.\<close>

definition swept_hashes :: "int \<Rightarrow> (string \<times> redemption) list \<Rightarrow> string list" where
  "swept_hashes cutoff entries =
     map (\<lambda>(redeemId, r). rd_tokenHash r)
       (filter (\<lambda>(redeemId, r). rd_createdAt r < cutoff \<and> rd_tokenHash r \<noteq> []) entries)"

section \<open>A scenario\<close>

text \<open>
  A mint, a Lightning address provider and two tokens: one worth 21000 sats and one worth
  1 sat.  The mint reports the melt as not paid but returns a payment preimage.  The
  first 16 characters of a token stand in for the digest.
\<close>

definition example_token :: string where
  "example_token = ''cashuAeyJ0b2tlbiI6W3sibWludCI6Imh0dHBzOi8vbWludC5leGFtcGxlLm9yZyJ9XX0''"

definition small_token :: string where
  "small_token = ''cashuBo2FteBhodHRwczovL21pbnQuZXhhbXBsZS5vcmc''"

definition example_proofs :: "cashu_proof list" where
  "example_proofs =
     [\<lparr>p_amount = Some 16384, p_secret = ''secret-1''\<rparr>,
      \<lparr>p_amount = Some 4096, p_secret = ''secret-2''\<rparr>,
      \<lparr>p_amount = Some 512, p_secret = ''secret-3''\<rparr>,
      \<lparr>p_amount = Some 8, p_secret = ''secret-4''\<rparr>]"

definition example_melt_response :: melt_response where
  "example_melt_response =
     \<lparr>r_paid = JBool False,
      r_payment_preimage = JStr ''9f2c41d07a5be8'',
      r_preimage = JUndefined,
      r_state = JUndefined,
      r_fee_paid = Some 420,
      r_fee = None,
      r_change = None\<rparr>"

definition example_lnurlp :: lnurl_data where
  "example_lnurlp =
     \<lparr>d_status = None,
      d_reason = None,
      d_callback = Some ''https://example.org/lnurlp/admin/callback'',
      d_minSendable = Some 1,
      d_maxSendable = Some 100000000,
      d_pr = None,
      d_successAction = None,
      d_verify = None\<rparr>"

definition example_world :: world where
  "example_world =
     \<lparr>sha256_hex16 = take 16,
      getDecodedToken =
        (\<lambda>t. if t = example_token
             then Inr (Some \<lparr>d_proofs = Some example_proofs,
                              d_mint = ''https://mint.example.org'',
                              d_token = None\<rparr>)
             else if t = small_token
             then Inr (Some \<lparr>d_proofs = Some [\<lparr>p_amount = Some 1, p_secret = ''secret-5''\<rparr>],
                              d_mint = ''https://mint.example.org'',
                              d_token = None\<rparr>)
             else Inl ''Token could not be decoded''),
      URL_valid = (\<lambda>u. startsWith u ''https://''),
      mint_getInfo = (\<lambda>log url. Inr ()),
      mint_check =
        (\<lambda>log url secrets.
            Inr \<lparr>c_spendable = Some (map (\<lambda>x. True) secrets), c_pending = Some []\<rparr>),
      wallet_createMeltQuote =
        (\<lambda>log url invoice. Inr \<lparr>q_quote = ''quote-1'', q_amount = 20580, q_fee_reserve = 420\<rparr>),
      wallet_meltTokens = (\<lambda>log url q ps. Inr example_melt_response),
      axios_get_lnurlp =
        (\<lambda>log url. Inr \<lparr>http_status = 200, http_statusText = ''OK'', http_data = example_lnurlp\<rparr>),
      axios_get_invoice =
        (\<lambda>log url amt c.
            Inr \<lparr>http_status = 200, http_statusText = ''OK'',
                 http_data = example_lnurlp\<lparr>d_callback := None, d_minSendable := None,
                                             d_maxSendable := None,
                                             d_pr := Some ''lnbc205800n1pexample''\<rparr>\<rparr>)\<rparr>"

definition example_config :: config where
  "example_config = LightningService (Some ''ln.tips, getalby.com,example.org'') (Some ''admin@example.org'')"

definition uppercase_config :: config where
  "uppercase_config = LightningService (Some ''LN.tips,getalby.com'') None"

definition empty_system :: system where
  "empty_system = \<lparr>mints = [], wallets = [], redemptions = [], tokenHashes = [], network = []\<rparr>"

text \<open>An attempt that has been at \<open>melting_token\<close> since time 0, and its index entry.\<close>

definition stuck_system :: system where
  "stuck_system =
     empty_system
       \<lparr>redemptions :=
          [(''id-7'', (initial_redemption example_token (take 16 example_token)
                         ''admin@example.org'' True)\<lparr>rd_status := MeltingToken\<rparr>)],
        tokenHashes := [(take 16 example_token, ''id-7'')]\<rparr>"

text \<open>The state after a first request for the 1 sat token, which fails for insufficient value.\<close>

definition after_failed_attempt :: system where
  "after_failed_attempt =
     snd (redeem_route example_world example_config 1000 ''id-1'' small_token None empty_system)"

section \<open>The fee\<close>

text \<open>
  The constant for \<open>0.02\<close> is the dyadic fraction with denominator \<open>2^58\<close> nearest to
  \<open>2/100\<close>; its numerator has 53 bits.
\<close>

lemma literal_0_02_nearest:
  "\<bar>number_value literal_0_02 - 2 / 100\<bar> \<le> \<bar>of_int m / 2 ^ 58 - 2 / 100\<bar>"
proof -
  have "6 \<le> \<bar>50 * m - 288230376151711744\<bar>" by presburger
  then have "(of_int 6 :: rat) \<le> of_int \<bar>50 * m - 288230376151711744\<bar>"
    by (simp only: of_int_le_iff)
  then have "(6 :: rat) \<le> \<bar>50 * of_int m - 288230376151711744\<bar>" by simp
  moreover have "of_int m / 2 ^ 58 - 2 / 100 = (50 * of_int m - 288230376151711744) / (14411518807585587200 :: rat)"
    by (simp add: field_simps)
  ultimately show ?thesis
    by (simp add: number_value_def literal_0_02_def abs_divide field_simps)
qed

lemma bit_length_bounds:
  "0 < n \<Longrightarrow> 2 ^ (bit_length n - 1) \<le> n \<and> n < 2 ^ bit_length n"
proof (induction n rule: bit_length.induct)
  case (1 n)
  show ?case
  proof (cases "n div 2 = 0")
    case True
    with "1.prems" have "n = 1" by presburger
    then show ?thesis by (simp add: bit_length.simps)
  next
    case False
    then have pos: "0 < n div 2" by simp
    from "1.IH" [OF _ pos] "1.prems"
    have ih: "2 ^ (bit_length (n div 2) - 1) \<le> n div 2" "n div 2 < 2 ^ bit_length (n div 2)"
      by simp_all
    have bl: "bit_length n = Suc (bit_length (n div 2))"
      using "1.prems" by (subst bit_length.simps) simp
    have bpos: "0 < bit_length (n div 2)"
      using pos by (subst bit_length.simps) simp
    then obtain j where j: "bit_length (n div 2) = Suc j" by (cases "bit_length (n div 2)") auto
    have "2 * 2 ^ j \<le> n" using ih(1) j by simp
    moreover have "n < 2 * 2 ^ Suc j" using ih(2) j by simp
    ultimately show ?thesis by (simp add: bl j)
  qed
qed

lemma round_ties_even_bounds:
  "n div 2 ^ s \<le> round_ties_even n s \<and> round_ties_even n s \<le> n div 2 ^ s + 1"
  by (simp add: round_ties_even_def Let_def)

lemma round_ties_even_down:
  "2 * (n mod 2 ^ s) < 2 ^ s \<Longrightarrow> round_ties_even n s = n div 2 ^ s"
  by (simp add: round_ties_even_def Let_def)

lemma round_ties_even_up:
  "2 ^ s < 2 * (n mod 2 ^ s) \<Longrightarrow> round_ties_even n s = n div 2 ^ s + 1"
  by (simp add: round_ties_even_def Let_def)



lemma div_between:
  fixes n d x :: int
  assumes "0 < d" "x * d \<le> n" "n < (x + y) * d"
  shows "x \<le> n div d" "n div d < x + y"
proof -
  have "x * d div d \<le> n div d" using assms(1,2) by (intro zdiv_mono1) auto
  then show "x \<le> n div d" using assms(1) by simp
  have "n div d * d \<le> n" using assms(1) by (simp add: minus_mod_eq_div_mult [symmetric])
  then have "n div d * d < (x + y) * d" using assms(3) by linarith
  then show "n div d < x + y" using assms(1) by (simp add: mult_less_cancel_right)
qed

lemma fee_mantissa:
  fixes a :: int
  assumes a1: "1 \<le> a" and a2: "a < 2 ^ 53"
  defines "N \<equiv> a * 5764607523034235"
  defines "s \<equiv> bit_length (nat \<bar>N\<bar>) - 53"
  defines "q \<equiv> round_ties_even N s"
  shows "((a + 49) div 50 - 1) * 2 ^ 58 < q * 2 ^ s \<and> q * 2 ^ s \<le> ((a + 49) div 50) * 2 ^ 58"
proof -
  define k where "k = a div 50"
  define r where "r = a mod 50"
  define b where "b = bit_length (nat \<bar>N\<bar>)"
  define D :: int where "D = 2 ^ s"
  have a_eq: "a = 50 * k + r" and r0: "0 \<le> r" and r50: "r < 50" and k0: "0 \<le> k"
    using a1 by (simp_all add: k_def r_def)
  have Npos: "0 < N" and Nlo: "2 ^ 52 \<le> N" and Nhi: "N < 2 ^ 106"
    using a1 a2 by (simp_all add: N_def)
  have "0 < nat N" using Npos by simp
  from bit_length_bounds [OF this]
  have bb: "2 ^ (b - 1) \<le> nat N" "nat N < 2 ^ b" using Npos by (simp_all add: b_def)
  have "int (nat N) < int (2 ^ b)" using bb(2) by (simp only: of_nat_less_iff)
  then have bhi: "N < 2 ^ b" using Npos by simp
  have "int (2 ^ (b - 1)) \<le> int (nat N)" using bb(1) by (simp only: of_nat_le_iff)
  then have blo: "2 ^ (b - 1) \<le> N" using Npos by simp
  have b53: "53 \<le> b"
  proof (rule ccontr)
    assume "\<not> 53 \<le> b"
    then have "b \<le> 52" by simp
    then have "(2::int) ^ b \<le> 2 ^ 52" by (intro power_increasing) auto
    with bhi Nlo show False by linarith
  qed
  have b106: "b \<le> 106"
  proof (rule ccontr)
    assume "\<not> b \<le> 106"
    then have "106 \<le> b - 1" by simp
    then have "(2::int) ^ 106 \<le> 2 ^ (b - 1)" by (intro power_increasing) auto
    with blo Nhi show False by linarith
  qed
  have s_eq: "b = s + 53" and s53: "s \<le> 53"
    using b53 b106 by (simp_all add: s_def b_def)
  define E :: int where "E = 2 ^ (58 - s)"
  have DE: "E * D = 288230376151711744"
  proof -
    have "E * D = 2 ^ (58 - s + s)" unfolding E_def D_def by (simp only: power_add)
    also have "58 - s + s = 58" using s53 by simp
    finally show ?thesis by simp
  qed
  have DE': "D * E = 288230376151711744" using DE by (simp add: mult.commute)
  have Dpos: "0 < D" by (simp add: D_def)
  have Epos: "0 < E" by (simp add: E_def)
  have Dhi: "D \<le> 2 ^ 53" unfolding D_def using s53 by (intro power_increasing) auto
  have NltD: "N < 9007199254740992 * D"
    using bhi by (simp add: s_eq D_def power_add)
  have N_eq: "N = k * (E * D) + (6 * k + r * 5764607523034235)"
    by (simp add: N_def a_eq DE)
  have q_bounds: "N div D \<le> q" "q \<le> N div D + 1"
    using round_ties_even_bounds [where n = N and s = s] by (simp_all add: q_def D_def)
  show ?thesis
  proof (cases "r = 0")
    case True
    then have ak: "a = 50 * k" using a_eq by simp
    then have k1: "1 \<le> k" using a1 by simp
    have N6: "N = D * (k * E) + 6 * k" using N_eq True by (simp add: algebra_simps)
    have "k * (E * D) \<le> N" using N_eq True k0 by simp
    then have "32 * k < D" using NltD by (simp add: DE)
    then have small: "0 \<le> 6 * k" "6 * k < D" "2 * (6 * k) < D" using k0 by simp_all
    have dv: "N div D = k * E" using N6 small(1,2) by (rule int_div_pos_eq)
    have md: "N mod D = 6 * k" using N6 small(1,2) by (rule int_mod_pos_eq)
    have "q = k * E"
      unfolding q_def using round_ties_even_down [where n = N and s = s] small(3) dv md by (simp add: D_def)
    then have "q * D = k * 288230376151711744" using DE by (simp add: mult.assoc)
    moreover have "(a + 49) div 50 = k" using ak by simp
    ultimately show ?thesis by (simp add: D_def [symmetric])
  next
    case False
    then have r1: "1 \<le> r" using r0 by simp
    define t where "t = 6 * k + r * 5764607523034235"
    have Nt: "N = k * (E * D) + t" using N_eq by (simp add: t_def)
    have klt: "50 * k < 2 ^ 53" using a2 a_eq r0 by simp
    have tlo: "4503599627370496 < t" using r1 k0 by (simp add: t_def)
    have thi: "t < E * D" using r50 klt by (simp add: t_def DE)
    have lo: "(k * E) * D \<le> N" using Nt tlo by (simp add: mult.assoc)
    have hi: "N < (k * E + E) * D" using Nt thi by (simp add: algebra_simps)
    from div_between [OF Dpos lo hi]
    have q0: "k * E \<le> N div D" "N div D < k * E + E" .
    have up: "q \<le> (k + 1) * E" using q_bounds(2) q0(2) by (simp add: algebra_simps)
    have low: "k * E < q"
    proof (cases "k * E < N div D")
      case True
      then show ?thesis using q_bounds(1) by simp
    next
      case False
      then have dv: "N div D = k * E" using q0(1) by simp
      have "N mod D = N - N div D * D" by (simp add: minus_div_mult_eq_mod)
      then have md: "N mod D = t" using dv Nt by (simp add: mult.assoc)
      have "D < 2 * (N mod D)" using md tlo Dhi by simp
      then have "q = N div D + 1"
        unfolding q_def using round_ties_even_up [where n = N and s = s] by (simp add: D_def)
      then show ?thesis using dv by simp
    qed
    have "k * E + 1 \<le> q" using low by simp
    then have "(k * E + 1) * D \<le> q * D" using Dpos by (intro mult_right_mono) auto
    moreover have "(k * E + 1) * D = k * (E * D) + D" by (simp add: algebra_simps)
    ultimately have g1: "k * 288230376151711744 < q * D" using Dpos unfolding DE by linarith
    have "q * D \<le> (k + 1) * E * D" using up Dpos by (intro mult_right_mono) auto
    moreover have "(k + 1) * E * D = (k + 1) * (E * D)" by (simp add: mult.assoc)
    ultimately have g2: "q * D \<le> (k + 1) * 288230376151711744" unfolding DE by linarith
    have "(a + 49) div 50 = k + 1" using a_eq r1 r50 by simp
    then show ?thesis using g1 g2 by (simp add: D_def [symmetric])
  qed
qed



lemma calculateFee_exact:
  assumes "1 \<le> amount" "amount < 2 ^ 53"
  shows "calculateFee amount = max 1 ((amount + 49) div 50)"
proof -
  define N where "N = amount * 5764607523034235"
  define s where "s = bit_length (nat \<bar>N\<bar>) - 53"
  define q where "q = round_ties_even N s"
  define k where "k = (amount + 49) div 50"
  from fee_mantissa [OF assms]
  have m: "(k - 1) * 2 ^ 58 < q * 2 ^ s" "q * 2 ^ s \<le> k * 2 ^ 58"
    by (simp_all add: N_def s_def q_def k_def)
  have "(of_int ((k - 1) * 2 ^ 58) :: rat) < of_int (q * 2 ^ s)"
    using m(1) by (simp only: of_int_less_iff)
  then have c1: "(of_int k :: rat) - 1 < of_int (q * 2 ^ s) / 2 ^ 58"
    by (simp add: pos_less_divide_eq)
  have "(of_int (q * 2 ^ s) :: rat) \<le> of_int (k * 2 ^ 58)"
    using m(2) by (simp only: of_int_le_iff)
  then have c2: "(of_int (q * 2 ^ s) :: rat) / 2 ^ 58 \<le> of_int k"
    by (simp add: pos_divide_le_eq)
  have "\<lceil>(of_int (q * 2 ^ s) :: rat) / 2 ^ 58\<rceil> = k"
    using c1 c2 by (rule ceiling_unique)
  then show ?thesis
    by (simp add: calculateFee_def Math_ceil_def number_times_def number_of_int_def
        literal_0_02_def binary64_def number_value_def Let_def
        N_def [symmetric] s_def [symmetric] q_def [symmetric] k_def [symmetric])
qed



section \<open>Effects of the service calls\<close>

lemma invoice_amounts_append [simp]:
  "invoice_amounts (xs @ ys) = invoice_amounts xs @ invoice_amounts ys"
  by (induction xs rule: invoice_amounts.induct) simp_all

lemma melt_count_append [simp]:
  "melt_count (xs @ ys) = melt_count xs + melt_count ys"
  by (induction xs rule: melt_count.induct) simp_all

lemma call_simps [simp]:
  "network (call c s) = network s @ [c]"
  "redemptions (call c s) = redemptions s"
  "tokenHashes (call c s) = tokenHashes s"
  "mints (call c s) = mints s"
  "wallets (call c s) = wallets s"
  by (simp_all add: call_def)

lemma updateRedemption_simps [simp]:
  "network (updateRedemption now i f s) = network s"
  "tokenHashes (updateRedemption now i f s) = tokenHashes s"
  "mints (updateRedemption now i f s) = mints s"
  "wallets (updateRedemption now i f s) = wallets s"
  by (simp_all add: updateRedemption_def split: option.splits)

lemma getMint_frame [simp]:
  "redemptions (snd (getMint w u s)) = redemptions s"
  "tokenHashes (snd (getMint w u s)) = tokenHashes s"
  "invoice_amounts (network (snd (getMint w u s))) = invoice_amounts (network s)"
  "melt_count (network (snd (getMint w u s))) = melt_count (network s)"
  by (simp_all add: getMint_def split: sum.splits)

lemma getWallet_frame [simp]:
  "redemptions (snd (getWallet w u s)) = redemptions s"
  "tokenHashes (snd (getWallet w u s)) = tokenHashes s"
  "invoice_amounts (network (snd (getWallet w u s))) = invoice_amounts (network s)"
  "melt_count (network (snd (getWallet w u s))) = melt_count (network s)"
  by (simp_all add: getWallet_def split_beta split: sum.splits)

lemma meltToken_try_frame [simp]:
  "redemptions (snd (meltToken_try w t b s)) = redemptions s"
  "tokenHashes (snd (meltToken_try w t b s)) = tokenHashes s"
  "invoice_amounts (network (snd (meltToken_try w t b s))) = invoice_amounts (network s)"
  by (simp_all add: meltToken_try_def split_beta Let_def split: sum.splits)

lemma meltToken_frame [simp]:
  "redemptions (snd (meltToken w t b s)) = redemptions s"
  "tokenHashes (snd (meltToken w t b s)) = tokenHashes s"
  "invoice_amounts (network (snd (meltToken w t b s))) = invoice_amounts (network s)"
  by (simp_all add: meltToken_def split_beta split: sum.splits)

lemma checkTokenSpendable_try_frame [simp]:
  "redemptions (snd (checkTokenSpendable_try w t s)) = redemptions s"
  "tokenHashes (snd (checkTokenSpendable_try w t s)) = tokenHashes s"
  "invoice_amounts (network (snd (checkTokenSpendable_try w t s))) = invoice_amounts (network s)"
  "melt_count (network (snd (checkTokenSpendable_try w t s))) = melt_count (network s)"
  by (simp_all add: checkTokenSpendable_try_def split_beta Let_def split: sum.splits)

lemma checkTokenSpendable_frame [simp]:
  "redemptions (snd (checkTokenSpendable w t s)) = redemptions s"
  "tokenHashes (snd (checkTokenSpendable w t s)) = tokenHashes s"
  "invoice_amounts (network (snd (checkTokenSpendable w t s))) = invoice_amounts (network s)"
  "melt_count (network (snd (checkTokenSpendable w t s))) = melt_count (network s)"
  by (simp_all add: checkTokenSpendable_def split_beta split: sum.splits)

lemma spendability_check_frame [simp]:
  "redemptions (snd (spendability_check w t s)) = redemptions s"
  "tokenHashes (snd (spendability_check w t s)) = tokenHashes s"
  "invoice_amounts (network (snd (spendability_check w t s))) = invoice_amounts (network s)"
  "melt_count (network (snd (spendability_check w t s))) = melt_count (network s)"
  by (simp_all add: spendability_check_def split_beta split: sum.splits)

lemma fetchLNURLpResponse_frame [simp]:
  "redemptions (snd (fetchLNURLpResponse w u s)) = redemptions s"
  "tokenHashes (snd (fetchLNURLpResponse w u s)) = tokenHashes s"
  "invoice_amounts (network (snd (fetchLNURLpResponse w u s))) = invoice_amounts (network s)"
  "melt_count (network (snd (fetchLNURLpResponse w u s))) = melt_count (network s)"
  by (simp_all add: fetchLNURLpResponse_def fetchLNURLpResponse_try_def split_beta
      split: sum.splits)

lemma getInvoice_frame [simp]:
  "redemptions (snd (getInvoice w cb amt c s)) = redemptions s"
  "tokenHashes (snd (getInvoice w cb amt c s)) = tokenHashes s"
  "melt_count (network (snd (getInvoice w cb amt c s))) = melt_count (network s)"
  by (simp_all add: getInvoice_def Let_def split: option.splits)


lemma resolveInvoice_try_frame [simp]:
  "redemptions (snd (resolveInvoice_try w cfg a amt c s)) = redemptions s"
  "tokenHashes (snd (resolveInvoice_try w cfg a amt c s)) = tokenHashes s"
  "melt_count (network (snd (resolveInvoice_try w cfg a amt c s))) = melt_count (network s)"
  by (simp_all add: resolveInvoice_try_def split_beta split: sum.splits)


lemma resolveInvoice_frame [simp]:
  "redemptions (snd (resolveInvoice w cfg a amt c s)) = redemptions s"
  "tokenHashes (snd (resolveInvoice w cfg a amt c s)) = tokenHashes s"
  "melt_count (network (snd (resolveInvoice w cfg a amt c s))) = melt_count (network s)"
  by (simp_all add: resolveInvoice_def split_beta)


section \<open>Runs of \<open>performRedemption\<close>\<close>

lemma map_of_updateRedemption [simp]:
  "map_of (redemptions (updateRedemption now rid f s)) rid' =
     (if rid' = rid then map_option (\<lambda>r. (f r)\<lparr>rd_updatedAt := now\<rparr>) (map_of (redemptions s) rid)
      else map_of (redemptions s) rid')"
  by (simp add: updateRedemption_def update_conv' split: option.splits)

lemma map_of_register_attempt [simp]:
  "map_of (redemptions (register_attempt w now rid t a d s)) rid =
     Some ((initial_redemption t (generateTokenHash w t) a d)\<lparr>rd_createdAt := now, rd_updatedAt := now\<rparr>)"
  "map_of (tokenHashes (register_attempt w now rid t a d s)) (generateTokenHash w t) = Some rid"
  "network (register_attempt w now rid t a d s) = network s"
  by (simp_all add: register_attempt_def storeRedemption_def update_conv' Let_def)

text \<open>
  Claim C3.  When the token parses and its value minus the protocol minimum fee is not
  positive (and a destination address is available, so that the attempt is recorded),
  \<open>performRedemption\<close> ends the attempt as failed with the insufficient-value error, the
  attempt is stored with status \<open>failed\<close>, \<open>paid = false\<close> and that error, and the log of
  network calls is what it was before: no spendability check, no LNURLp fetch, no invoice
  request and no melt has been made.
\<close>

theorem insufficient_value_fails_before_any_network_call:
  assumes "parseToken w t = Inr td"
    and "td_totalAmount td - calculateFee (td_totalAmount td) \<le> 0"
    and "getLightningAddressToUse cfg providedAddress = Inr a"
  shows "fst (performRedemption w cfg now rid t providedAddress s)
           = Failure rid (insufficient_message (td_totalAmount td) (calculateFee (td_totalAmount td)))
         \<and> network (snd (performRedemption w cfg now rid t providedAddress s)) = network s
         \<and> (\<exists>r. getRedemption (snd (performRedemption w cfg now rid t providedAddress s)) rid = Some r
                \<and> rd_status r = Failed \<and> rd_paid r = JBool False
                \<and> rd_error r = Some (insufficient_message (td_totalAmount td)
                                        (calculateFee (td_totalAmount td))))"
  using assms
  by (simp add: performRedemption_def performRedemption_try_def parsing_stage_def Let_def
      getRedemption_def)


subsection \<open>Settlement\<close>

lemma truthy_paymentSuccessful: "truthy (paymentSuccessful r) = settlement_signal r"
  by (cases "r_state r"; cases "r_payment_preimage r"; cases "r_preimage r")
     (auto simp: paymentSuccessful_def settlement_signal_def js_or_def js_and_def)

lemma truthy_settled: "truthy (settled (melt_result_of parsed q r)) = settlement_signal r"
  using truthy_paymentSuccessful [of r]
  by (auto simp: settled_def melt_result_of_def js_or_def settlement_signal_def)

lemma meltToken_try_melt:
  assumes "melt_count (network (snd (meltToken_try w t b s))) \<noteq> melt_count (network s)"
  shows "\<exists>before wallet q proofs.
           network (snd (meltToken_try w t b s)) = before @ [MeltTokens wallet q proofs]
           \<and> (case wallet_meltTokens w before wallet q proofs of
                Inl e \<Rightarrow> fst (meltToken_try w t b s) = Inl e
              | Inr r \<Rightarrow> (\<exists>parsed. fst (meltToken_try w t b s) = Inr (melt_result_of parsed q r)))"
  using assms
  by (auto simp: meltToken_try_def split_beta Let_def split: sum.splits if_splits)

lemma meltToken_melt:
  assumes "melt_count (network (snd (meltToken w t b s))) \<noteq> melt_count (network s)"
  shows "\<exists>before wallet q proofs.
           network (snd (meltToken w t b s)) = before @ [MeltTokens wallet q proofs]
           \<and> (case wallet_meltTokens w before wallet q proofs of
                Inl e \<Rightarrow> fst (meltToken w t b s) = Inl (meltToken_catch e)
              | Inr r \<Rightarrow> (\<exists>parsed. fst (meltToken w t b s) = Inr (melt_result_of parsed q r)))"
proof -
  have eq: "snd (meltToken w t b s) = snd (meltToken_try w t b s)"
    by (simp add: meltToken_def split_beta split: sum.splits)
  from assms have "melt_count (network (snd (meltToken_try w t b s))) \<noteq> melt_count (network s)"
    by (simp add: eq)
  from meltToken_try_melt [OF this] obtain before wallet q proofs where
    n: "network (snd (meltToken_try w t b s)) = before @ [MeltTokens wallet q proofs]"
    and c: "case wallet_meltTokens w before wallet q proofs of
              Inl e \<Rightarrow> fst (meltToken_try w t b s) = Inl e
            | Inr r \<Rightarrow> (\<exists>parsed. fst (meltToken_try w t b s) = Inr (melt_result_of parsed q r))"
    by blast
  have "case wallet_meltTokens w before wallet q proofs of
          Inl e \<Rightarrow> fst (meltToken w t b s) = Inl (meltToken_catch e)
        | Inr r \<Rightarrow> (\<exists>parsed. fst (meltToken w t b s) = Inr (melt_result_of parsed q r))"
    using c by (auto simp: meltToken_def split_beta split: sum.splits)
  then show ?thesis using n eq by auto
qed

lemma melting_stage_classified:
  assumes "melt_count (network (snd (melting_stage w now rid t td net a d iv s)))
             \<noteq> melt_count (network s)"
    and "map_of (redemptions s) rid \<noteq> None"
  shows "classified_by_melt w rid (fst (melting_stage w now rid t td net a d iv s))
           (snd (melting_stage w now rid t td net a d iv s))"
proof -
  define s1 where "s1 = updateRedemption now rid (\<lambda>r. r\<lparr>rd_status := MeltingToken\<rparr>) s"
  define run where "run = meltToken w t (inv_bolt11 iv) s1"
  have net: "network (snd (melting_stage w now rid t td net a d iv s)) = network (snd run)"
    by (simp add: melting_stage_def run_def s1_def split_beta finish_redemption_def
        split: sum.splits)
  have "melt_count (network (snd run)) \<noteq> melt_count (network s1)"
    using assms(1) by (simp add: net s1_def)
  from meltToken_melt [OF this [unfolded run_def], folded run_def]
  obtain before wallet q proofs where
    n: "network (snd run) = before @ [MeltTokens wallet q proofs]"
    and c: "case wallet_meltTokens w before wallet q proofs of
              Inl e \<Rightarrow> fst run = Inl (meltToken_catch e)
            | Inr r \<Rightarrow> (\<exists>parsed. fst run = Inr (melt_result_of parsed q r))"
    by blast
  obtain x where x: "map_of (redemptions s) rid = Some x" using assms(2) by auto
  have "case wallet_meltTokens w before wallet q proofs of
          Inl e \<Rightarrow> fst (melting_stage w now rid t td net a d iv s) = Inl (meltToken_catch e)
        | Inr r \<Rightarrow>
            (\<exists>res. fst (melting_stage w now rid t td net a d iv s) = Inr res
                   \<and> truthy (res_paid res) = settlement_signal r)
            \<and> (\<exists>y. getRedemption (snd (melting_stage w now rid t td net a d iv s)) rid = Some y
                   \<and> rd_status y = (if settlement_signal r then Paid else Failed))"
  proof (cases "wallet_meltTokens w before wallet q proofs")
    case (Inl e)
    with c show ?thesis
      by (simp add: melting_stage_def run_def [symmetric] s1_def [symmetric] split_beta)
  next
    case (Inr r)
    with c obtain parsed where mr: "fst run = Inr (melt_result_of parsed q r)" by auto
    show ?thesis
      using mr x
      by (simp add: Inr melting_stage_def s1_def [symmetric] run_def [symmetric] split_beta
          finish_redemption_def getRedemption_def final_update_def truthy_settled)
         (simp add: run_def s1_def)
  qed
  then show ?thesis
    unfolding classified_by_melt_def using n net by auto
qed

lemma melting_stage_result:
  assumes "fst (melting_stage w now rid t td net a d iv s) = Inr res"
  shows "res_invoiceAmount res = net \<and> res_to res = a \<and> res_usingDefaultAddress res = d
         \<and> res_amount res = td_totalAmount td"
  using assms
  by (auto simp: melting_stage_def split_beta finish_redemption_def split: sum.splits)

lemma destination_updates [simp]:
  "destination (rd_status_update f0 r) = destination r"
  "destination (rd_token_update f1 r) = destination r"
  "destination (rd_tokenHash_update f2 r) = destination r"
  "destination (rd_amount_update f3 r) = destination r"
  "destination (rd_paid_update f4 r) = destination r"
  "destination (rd_error_update f5 r) = destination r"
  "destination (rd_createdAt_update f6 r) = destination r"
  "destination (rd_updatedAt_update f7 r) = destination r"
  "destination (rd_mint_update f8 r) = destination r"
  "destination (rd_numProofs_update f9 r) = destination r"
  "destination (rd_expectedFee_update f10 r) = destination r"
  "destination (rd_netAmountAfterFee_update f11 r) = destination r"
  "destination (rd_format_update f12 r) = destination r"
  "destination (rd_bolt11_update f13 r) = destination r"
  "destination (rd_domain_update f14 r) = destination r"
  "destination (rd_invoiceAmount_update f15 r) = destination r"
  "destination (rd_preimage_update f16 r) = destination r"
  "destination (rd_fee_update f17 r) = destination r"
  "destination (rd_actualFee_update f18 r) = destination r"
  "destination (rd_netAmount_update f19 r) = destination r"
  "destination (rd_change_update f20 r) = destination r"
  "destination (rd_paidAt_update f21 r) = destination r"
  "destination (rd_rawMeltResponse_update f22 r) = destination r"
  by (simp_all add: destination_def)

lemma melting_stage_frame [simp]:
  "tokenHashes (snd (melting_stage w now rid t td net a d iv s)) = tokenHashes s"
  "invoice_amounts (network (snd (melting_stage w now rid t td net a d iv s)))
     = invoice_amounts (network s)"
  "map_option destination (map_of (redemptions (snd (melting_stage w now rid t td net a d iv s))) rid')
     = map_option destination (map_of (redemptions s) rid')"
  by (simp_all add: melting_stage_def split_beta finish_redemption_def final_update_def
      option.map_comp o_def split: sum.splits)

lemma melting_stage_frame' [simp]:
  "melt_count (network (snd (melting_stage w now rid t td net a d iv s)))
     = melt_count (network (snd (meltToken w t (inv_bolt11 iv)
         (updateRedemption now rid (\<lambda>r. r\<lparr>rd_status := MeltingToken\<rparr>) s))))"
  by (simp add: melting_stage_def split_beta finish_redemption_def split: sum.splits)

lemma invoice_stage_classified:
  assumes "melt_count (network (snd (invoice_stage w cfg now rid t td net a d s)))
             \<noteq> melt_count (network s)"
    and "map_of (redemptions s) rid \<noteq> None"
  shows "classified_by_melt w rid (fst (invoice_stage w cfg now rid t td net a d s))
           (snd (invoice_stage w cfg now rid t td net a d s))"
proof -
  define s1 where "s1 = updateRedemption now rid (\<lambda>r. r\<lparr>rd_status := ResolvingInvoice\<rparr>) s"
  define run where "run = resolveInvoice w cfg a net ''Cashu redemption'' s1"
  show ?thesis
  proof (cases "fst run")
    case (Inl e)
    then have "snd (invoice_stage w cfg now rid t td net a d s) = snd run"
      by (simp add: invoice_stage_def run_def s1_def split_beta)
    with assms(1) show ?thesis by (simp add: run_def s1_def)
  next
    case (Inr iv)
    define s2 where "s2 = updateRedemption now rid
               (\<lambda>r. r\<lparr>rd_bolt11 := Some (take 50 (inv_bolt11 iv) @ ''...''),
                       rd_domain := Some (inv_domain iv),
                       rd_invoiceAmount := Some net\<rparr>) (snd run)"
    have eq: "invoice_stage w cfg now rid t td net a d s
                = melting_stage w now rid t td net a d iv s2"
      using Inr by (simp add: invoice_stage_def run_def s1_def s2_def split_beta)
    have "melt_count (network s2) = melt_count (network s)"
      by (simp add: s2_def run_def s1_def)
    moreover have "map_of (redemptions s2) rid \<noteq> None"
      using assms(2) by (simp add: s2_def run_def s1_def)
    ultimately show ?thesis
      using assms(1) melting_stage_classified [of w now rid t td net a d iv s2]
      by (simp add: eq)
  qed
qed

lemma invoice_stage_result:
  assumes "fst (invoice_stage w cfg now rid t td net a d s) = Inr res"
  shows "res_invoiceAmount res = net \<and> res_to res = a \<and> res_usingDefaultAddress res = d
         \<and> res_amount res = td_totalAmount td"
  using assms
  by (auto simp: invoice_stage_def split_beta split: sum.splits dest: melting_stage_result)

lemma invoice_stage_frame [simp]:
  "tokenHashes (snd (invoice_stage w cfg now rid t td net a d s)) = tokenHashes s"
  "map_option destination (map_of (redemptions (snd (invoice_stage w cfg now rid t td net a d s))) rid')
     = map_option destination (map_of (redemptions s) rid')"
  by (simp_all add: invoice_stage_def split_beta
      option.map_comp o_def split: sum.splits)


lemma spendability_stage_classified:
  assumes "melt_count (network (snd (spendability_stage w cfg now rid t td net a d s)))
             \<noteq> melt_count (network s)"
    and "map_of (redemptions s) rid \<noteq> None"
  shows "classified_by_melt w rid (fst (spendability_stage w cfg now rid t td net a d s))
           (snd (spendability_stage w cfg now rid t td net a d s))"
proof -
  define s1 where "s1 = updateRedemption now rid (\<lambda>r. r\<lparr>rd_status := CheckingSpendability\<rparr>) s"
  define run where "run = spendability_check w t s1"
  have frame: "melt_count (network (snd run)) = melt_count (network s)"
    "map_of (redemptions (snd run)) rid \<noteq> None"
    using assms(2) by (simp_all add: run_def s1_def)
  show ?thesis
  proof (cases "spendability_stage w cfg now rid t td net a d s
                  = invoice_stage w cfg now rid t td net a d (snd run)")
    case True
    then show ?thesis
      using assms(1) frame invoice_stage_classified [of w cfg now rid t td net a d "snd run"]
      by simp
  next
    case False
    then have "snd (spendability_stage w cfg now rid t td net a d s) = snd run"
      by (auto simp: spendability_stage_def run_def s1_def split_beta split: sum.splits if_splits)
    with assms(1) frame show ?thesis by simp
  qed
qed

lemma spendability_stage_result:
  assumes "fst (spendability_stage w cfg now rid t td net a d s) = Inr res"
  shows "res_invoiceAmount res = net \<and> res_to res = a \<and> res_usingDefaultAddress res = d
         \<and> res_amount res = td_totalAmount td"
  using assms
  by (auto simp: spendability_stage_def split_beta split: sum.splits if_splits
      dest: invoice_stage_result)

lemma spendability_stage_frame [simp]:
  "tokenHashes (snd (spendability_stage w cfg now rid t td net a d s)) = tokenHashes s"
  "map_option destination
     (map_of (redemptions (snd (spendability_stage w cfg now rid t td net a d s))) rid')
     = map_option destination (map_of (redemptions s) rid')"
  by (simp_all add: spendability_stage_def split_beta
      option.map_comp o_def split: sum.splits)



lemma parsing_stage_classified:
  assumes "melt_count (network (snd (parsing_stage w cfg now rid t a d s))) \<noteq> melt_count (network s)"
    and "map_of (redemptions s) rid \<noteq> None"
  shows "classified_by_melt w rid (fst (parsing_stage w cfg now rid t a d s))
           (snd (parsing_stage w cfg now rid t a d s))"
proof (cases "parseToken w t")
  case (Inl e)
  with assms(1) show ?thesis by (simp add: parsing_stage_def Let_def)
next
  case (Inr td)
  define fee where "fee = calculateFee (td_totalAmount td)"
  define net where "net = td_totalAmount td - fee"
  define s2 where "s2 = updateRedemption now rid
      (\<lambda>r. r\<lparr>rd_amount := Some (td_totalAmount td), rd_mint := Some (td_mint td),
              rd_numProofs := Some (td_numProofs td), rd_expectedFee := Some fee,
              rd_netAmountAfterFee := Some net, rd_format := Some (td_format td)\<rparr>)
      (updateRedemption now rid (\<lambda>r. r\<lparr>rd_status := ParsingToken\<rparr>) s)"
  show ?thesis
  proof (cases "net \<le> 0")
    case True
    with assms(1) Inr show ?thesis
      by (simp add: parsing_stage_def Let_def net_def fee_def)
  next
    case False
    then have eq: "parsing_stage w cfg now rid t a d s
                     = spendability_stage w cfg now rid t td net a d s2"
      using Inr by (simp add: parsing_stage_def Let_def net_def fee_def s2_def)
    have "melt_count (network s2) = melt_count (network s)" "map_of (redemptions s2) rid \<noteq> None"
      using assms(2) by (simp_all add: s2_def)
    then show ?thesis
      using assms(1) spendability_stage_classified [of w cfg now rid t td net a d s2]
      by (simp add: eq)
  qed
qed


lemma parsing_stage_frame [simp]:
  "tokenHashes (snd (parsing_stage w cfg now rid t a d s)) = tokenHashes s"
  "map_option destination (map_of (redemptions (snd (parsing_stage w cfg now rid t a d s))) rid')
     = map_option destination (map_of (redemptions s) rid')"
  by (simp_all add: parsing_stage_def Let_def option.map_comp o_def split: sum.splits)


lemma performRedemption_fst:
  "fst (performRedemption w cfg now rid t p s) =
     (case fst (performRedemption_try w cfg now rid t p s) of
        Inr res \<Rightarrow> Success res | Inl e \<Rightarrow> Failure rid e)"
  by (simp add: performRedemption_def split_beta split: sum.splits)

lemma performRedemption_snd:
  "snd (performRedemption w cfg now rid t p s) =
     (case fst (performRedemption_try w cfg now rid t p s) of
        Inr res \<Rightarrow> snd (performRedemption_try w cfg now rid t p s)
      | Inl e \<Rightarrow> updateRedemption now rid
                  (\<lambda>r. r\<lparr>rd_status := Failed, rd_paid := JBool False, rd_error := Some e\<rparr>)
                  (snd (performRedemption_try w cfg now rid t p s)))"
  by (simp add: performRedemption_def split_beta split: sum.splits)

lemma performRedemption_network:
  "network (snd (performRedemption w cfg now rid t p s))
     = network (snd (performRedemption_try w cfg now rid t p s))"
  by (simp add: performRedemption_snd split: sum.splits)


lemma performRedemption_try_classified:
  assumes "melt_count (network (snd (performRedemption_try w cfg now rid t p s)))
             \<noteq> melt_count (network s)"
  shows "classified_by_melt w rid (fst (performRedemption_try w cfg now rid t p s))
           (snd (performRedemption_try w cfg now rid t p s))"
proof (cases "getLightningAddressToUse cfg p")
  case (Inl e)
  with assms show ?thesis by (simp add: performRedemption_try_def)
next
  case (Inr a)
  define s1 where "s1 = register_attempt w now rid t a (isUsingDefault p) s"
  have eq: "performRedemption_try w cfg now rid t p s
              = parsing_stage w cfg now rid t a (isUsingDefault p) s1"
    using Inr by (simp add: performRedemption_try_def s1_def)
  have "melt_count (network s1) = melt_count (network s)" "map_of (redemptions s1) rid \<noteq> None"
    by (simp_all add: s1_def)
  then show ?thesis
    using assms parsing_stage_classified [of w cfg now rid t a "isUsingDefault p" s1]
    by (simp add: eq)
qed

text \<open>
  Claim C6.  The value \<open>meltToken\<close> computes from a melt response is truthy exactly when
  one of the signals holds (\<open>paid === true\<close>, a truthy \<open>payment_preimage\<close> or \<open>preimage\<close>,
  \<open>state === 'PAID'\<close>); a response with \<open>paid = false\<close> and a non-empty preimage counts as
  settled.  In every run of \<open>performRedemption\<close> that submits the melt, the melt is the last
  network call, and for every response the mint gives the run returns a result whose
  \<open>paid\<close> is truthy exactly when the response carries a signal, and leaves the attempt
  with status \<open>paid\<close> when it does and \<open>failed\<close> when it carries none.
\<close>

theorem settlement_classified_by_signals:
  "(truthy (paymentSuccessful r) = settlement_signal r)
   \<and> (preimage_text \<noteq> [] \<longrightarrow>
        truthy (paymentSuccessful (r\<lparr>r_paid := JBool False, r_payment_preimage := JStr preimage_text\<rparr>)))
   \<and> (melt_count (network (snd (performRedemption w cfg now rid t p s))) \<noteq> melt_count (network s)
        \<longrightarrow>
        (\<exists>before wallet q proofs.
           network (snd (performRedemption w cfg now rid t p s)) = before @ [MeltTokens wallet q proofs]
           \<and> (\<forall>answer. wallet_meltTokens w before wallet q proofs = Inr answer \<longrightarrow>
                 (\<exists>res. fst (performRedemption w cfg now rid t p s) = Success res
                        \<and> truthy (res_paid res) = settlement_signal answer)
                 \<and> (\<exists>x. getRedemption (snd (performRedemption w cfg now rid t p s)) rid = Some x
                        \<and> rd_status x = (if settlement_signal answer then Paid else Failed)))))"
proof (intro conjI impI)
  show "truthy (paymentSuccessful r) = settlement_signal r"
    by (rule truthy_paymentSuccessful)
next
  assume "preimage_text \<noteq> []"
  then show "truthy (paymentSuccessful
                       (r\<lparr>r_paid := JBool False, r_payment_preimage := JStr preimage_text\<rparr>))"
    by (simp add: truthy_paymentSuccessful settlement_signal_def)
next
  let ?body = "performRedemption_try w cfg now rid t p s"
  let ?run = "performRedemption w cfg now rid t p s"
  assume "melt_count (network (snd ?run)) \<noteq> melt_count (network s)"
  then have "melt_count (network (snd ?body)) \<noteq> melt_count (network s)"
    by (simp add: performRedemption_network)
  from performRedemption_try_classified [OF this]
  obtain before wallet q proofs where
    n: "network (snd ?body) = before @ [MeltTokens wallet q proofs]"
    and c: "case wallet_meltTokens w before wallet q proofs of
              Inl e \<Rightarrow> fst ?body = Inl (meltToken_catch e)
            | Inr r \<Rightarrow>
                (\<exists>res. fst ?body = Inr res \<and> truthy (res_paid res) = settlement_signal r)
                \<and> (\<exists>x. getRedemption (snd ?body) rid = Some x
                       \<and> rd_status x = (if settlement_signal r then Paid else Failed))"
    unfolding classified_by_melt_def by blast
  have "\<forall>answer. wallet_meltTokens w before wallet q proofs = Inr answer \<longrightarrow>
          (\<exists>res. fst ?run = Success res \<and> truthy (res_paid res) = settlement_signal answer)
          \<and> (\<exists>x. getRedemption (snd ?run) rid = Some x
                 \<and> rd_status x = (if settlement_signal answer then Paid else Failed))"
  proof (intro allI impI)
    fix answer
    assume a: "wallet_meltTokens w before wallet q proofs = Inr answer"
    with c obtain res x where
      r: "fst ?body = Inr res" "truthy (res_paid res) = settlement_signal answer"
      and x: "getRedemption (snd ?body) rid = Some x"
        "rd_status x = (if settlement_signal answer then Paid else Failed)"
      by auto
    from r(1) have "fst ?run = Success res" "snd ?run = snd ?body"
      by (simp_all add: performRedemption_fst performRedemption_snd)
    with r(2) x
    show "(\<exists>res. fst ?run = Success res \<and> truthy (res_paid res) = settlement_signal answer)
          \<and> (\<exists>x. getRedemption (snd ?run) rid = Some x
                 \<and> rd_status x = (if settlement_signal answer then Paid else Failed))"
      by simp
  qed
  with n show "\<exists>before wallet q proofs.
      network (snd ?run) = before @ [MeltTokens wallet q proofs]
      \<and> (\<forall>answer. wallet_meltTokens w before wallet q proofs = Inr answer \<longrightarrow>
            (\<exists>res. fst ?run = Success res \<and> truthy (res_paid res) = settlement_signal answer)
            \<and> (\<exists>x. getRedemption (snd ?run) rid = Some x
                   \<and> rd_status x = (if settlement_signal answer then Paid else Failed)))"
    by (auto simp: performRedemption_network)
qed

lemma isUsingDefault_address:
  "isUsingDefault p \<Longrightarrow> getLightningAddressToUse cfg p = useDefaultAddress cfg"
  by (auto simp: isUsingDefault_def getLightningAddressToUse_def split: option.splits)

text \<open>
  Claim C10.  For a request whose Lightning address is absent or blank: when no default
  address is configured, validation fails, its errors contain \<open>No Lightning address provided
  and no default Lightning address configured\<close>, and the route answers with the joined
  errors and leaves the state as it was (no attempt is created); when a default is
  configured, validation chooses it, \<open>performRedemption\<close> stores it as the destination of
  the attempt with \<open>usingDefaultAddress = true\<close>, and a successful result names it in \<open>to\<close>.
\<close>

theorem default_address_when_none_given:
  "isUsingDefault p \<longrightarrow>
     (getDefaultLightningAddress cfg = None \<longrightarrow>
        \<not> valid (validateRedemptionRequest w cfg s t p)
        \<and> ''No Lightning address provided and no default Lightning address configured''
              \<in> set (errors (validateRedemptionRequest w cfg s t p))
        \<and> redeem_route w cfg now rid t p s
              = (ValidationRejected (join_comma (errors (validateRedemptionRequest w cfg s t p))), s))
     \<and> (getDefaultLightningAddress cfg = Some d \<longrightarrow>
        lightningAddressToUse (validateRedemptionRequest w cfg s t p) = Some d
        \<and> map_option destination (getRedemption (snd (performRedemption w cfg now rid t p s)) rid)
              = Some (d, True)
        \<and> (\<forall>res. fst (performRedemption w cfg now rid t p s) = Success res \<longrightarrow>
               res_to res = d \<and> res_usingDefaultAddress res))"
proof (intro impI conjI allI)
  assume u: "isUsingDefault p" and n: "getDefaultLightningAddress cfg = None"
  have a: "getLightningAddressToUse cfg p
             = Inl ''No Lightning address provided and no default Lightning address configured''"
    using isUsingDefault_address [OF u] n by (simp add: useDefaultAddress_def)
  show e: "''No Lightning address provided and no default Lightning address configured''
          \<in> set (errors (validateRedemptionRequest w cfg s t p))"
    by (simp add: validateRedemptionRequest_def Let_def address_errors_def a)
  then show v: "\<not> valid (validateRedemptionRequest w cfg s t p)"
    by (simp add: validateRedemptionRequest_def Let_def address_errors_def a)
  then show "redeem_route w cfg now rid t p s
              = (ValidationRejected (join_comma (errors (validateRedemptionRequest w cfg s t p))), s)"
    by (simp add: redeem_route_def Let_def)
next
  assume u: "isUsingDefault p" and n: "getDefaultLightningAddress cfg = Some d"
  have a: "getLightningAddressToUse cfg p = Inr d"
    using isUsingDefault_address [OF u] n by (simp add: useDefaultAddress_def)
  show "lightningAddressToUse (validateRedemptionRequest w cfg s t p) = Some d"
    by (simp add: validateRedemptionRequest_def Let_def a)
  have tr: "performRedemption_try w cfg now rid t p s
               = parsing_stage w cfg now rid t d True (register_attempt w now rid t d True s)"
    using a u by (simp add: performRedemption_try_def)
  have "map_option destination
          (map_of (redemptions (snd (performRedemption_try w cfg now rid t p s))) rid)
        = Some (d, True)"
    by (simp add: tr destination_def initial_redemption_def)
  then show "map_option destination (getRedemption (snd (performRedemption w cfg now rid t p s)) rid)
              = Some (d, True)"
    by (auto simp: getRedemption_def performRedemption_snd split: sum.splits)
  fix res
  assume "fst (performRedemption w cfg now rid t p s) = Success res"
  then have "fst (parsing_stage w cfg now rid t d True (register_attempt w now rid t d True s))
               = Inr res"
    by (simp add: performRedemption_fst tr split: sum.splits)
  then show "res_to res = d" "res_usingDefaultAddress res"
    by (auto simp: parsing_stage_def Let_def split: sum.splits if_splits
        dest: spendability_stage_result)
qed

section \<open>Bounds, sweep and duplicate guard\<close>


subsection \<open>The sweep\<close>

lemma cleanup_loop_frame [simp]:
  "network (cleanup_loop c es s) = network s"
  "mints (cleanup_loop c es s) = mints s"
  "wallets (cleanup_loop c es s) = wallets s"
  by (induction c es s rule: cleanup_loop.induct) (simp_all add: Let_def)

lemma cleanup_loop_redemptions:
  "redemptions (cleanup_loop c es s) =
     filter (\<lambda>(k, v). k \<notin> set (map fst (filter (\<lambda>(k, v). rd_createdAt v < c) es)))
       (redemptions s)"
proof (induction c es s rule: cleanup_loop.induct)
  case (1 cutoff s)
  then show ?case by simp
next
  case (2 cutoff redeemId r entries s)
  show ?case
    using "2.IH"
    by (auto simp: Let_def AList.delete_eq case_prod_unfold intro!: filter_cong)
qed

lemma cleanup_loop_tokenHashes:
  "tokenHashes (cleanup_loop c es s) =
     filter (\<lambda>(h, rid). h \<notin> set (swept_hashes c es)) (tokenHashes s)"
proof (induction c es s rule: cleanup_loop.induct)
  case (1 cutoff s)
  then show ?case by (simp add: swept_hashes_def)
next
  case (2 cutoff redeemId r entries s)
  show ?case
    using "2.IH"
    by (auto simp: Let_def AList.delete_eq swept_hashes_def case_prod_unfold intro!: filter_cong)
qed

text \<open>
  Claim C9, as amended.  On a ledger whose keys are distinct (as the keys of a Map are), the
  sweep removes exactly the entries created before the horizon (\<open>now - maxAgeMs\<close>, 24 hours
  back when no age is given) and keeps the others in their order; it removes the index
  entries for the token hashes of the removed attempts and no other index entry; it makes
  no network call.  The state of an entry is not consulted: an old entry is removed
  whatever its status.
\<close>

theorem sweep_removes_old_entries_whatever_their_state:
  assumes "distinct (map fst (redemptions s))"
  shows "redemptions (cleanupOldRedemptions now maxAgeMs s) =
           filter (\<lambda>(redeemId, r).
                     \<not> rd_createdAt r < now - (case maxAgeMs of Some m \<Rightarrow> m | None \<Rightarrow> 86400000))
             (redemptions s)
         \<and> tokenHashes (cleanupOldRedemptions now maxAgeMs s) =
           filter (\<lambda>(h, redeemId).
                     h \<notin> set (swept_hashes
                                 (now - (case maxAgeMs of Some m \<Rightarrow> m | None \<Rightarrow> 86400000))
                                 (redemptions s)))
             (tokenHashes s)
         \<and> network (cleanupOldRedemptions now maxAgeMs s) = network s"
proof -
  define c where "c = now - (case maxAgeMs of Some m \<Rightarrow> m | None \<Rightarrow> 86400000)"
  have run: "cleanupOldRedemptions now maxAgeMs s = cleanup_loop c (redemptions s) s"
    by (cases maxAgeMs) (simp_all add: cleanupOldRedemptions_def c_def Let_def)
  have "filter (\<lambda>(k, v). k \<notin> set (map fst (filter (\<lambda>(k, v). rd_createdAt v < c) (redemptions s))))
          (redemptions s)
        = filter (\<lambda>(k, r). \<not> rd_createdAt r < c) (redemptions s)"
  proof (rule filter_cong [OF refl])
    fix e assume e: "e \<in> set (redemptions s)"
    obtain k v where kv: "e = (k, v)" by (cases e)
    have "k \<in> set (map fst (filter (\<lambda>(k, v). rd_createdAt v < c) (redemptions s)))
            \<longleftrightarrow> rd_createdAt v < c"
    proof
      assume "k \<in> set (map fst (filter (\<lambda>(k, v). rd_createdAt v < c) (redemptions s)))"
      then obtain v' where v': "(k, v') \<in> set (redemptions s)" "rd_createdAt v' < c" by auto
      have "(k, v) \<in> set (redemptions s)" using e kv by simp
      from map_of_is_SomeI [OF assms v'(1)] map_of_is_SomeI [OF assms this]
      have "v' = v" by simp
      with v'(2) show "rd_createdAt v < c" by simp
    next
      assume "rd_createdAt v < c"
      with e kv show "k \<in> set (map fst (filter (\<lambda>(k, v). rd_createdAt v < c) (redemptions s)))"
        by force
    qed
    then show "(case e of (k, v) \<Rightarrow>
                  k \<notin> set (map fst (filter (\<lambda>(k, v). rd_createdAt v < c) (redemptions s))))
             = (case e of (k, r) \<Rightarrow> \<not> rd_createdAt r < c)"
      by (simp add: kv)
  qed
  then show ?thesis
    by (simp add: run cleanup_loop_redemptions cleanup_loop_tokenHashes c_def [symmetric])
qed

subsection \<open>The duplicate guard\<close>

lemma address_errors_other:
  "''Token has already been redeemed'' \<notin> set (address_errors cfg p)"
proof (cases "getLightningAddressToUse cfg p")
  case (Inl e)
  then have "e = ''No Lightning address provided and no default Lightning address configured''"
    by (auto simp: getLightningAddressToUse_def useDefaultAddress_def
        split: option.splits if_splits)
  with Inl show ?thesis by (simp add: address_errors_def)
next
  case (Inr a)
  then show ?thesis by (simp add: address_errors_def)
qed

lemma existing_errors_eq:
  "existing_errors w s t =
     (if t \<noteq> [] \<and> checkExistingRedemption w s t \<noteq> None
      then [''Token has already been redeemed''] else [])"
  by (cases "checkExistingRedemption w s t") (simp_all add: existing_errors_def)

lemma existing_errors_listed:
  "(''Token has already been redeemed'' \<in> set (existing_errors w s t))
     = (t \<noteq> [] \<and> checkExistingRedemption w s t \<noteq> None)"
  by (simp add: existing_errors_eq)

lemma already_redeemed_listed:
  "(''Token has already been redeemed'' \<in> set (errors (validateRedemptionRequest w cfg s t p)))
     = (t \<noteq> [] \<and> checkExistingRedemption w s t \<noteq> None)"
proof (cases "parseToken w t")
  case (Inl e)
  then show ?thesis
    by (simp add: validateRedemptionRequest_def Let_def address_errors_other
        existing_errors_listed)
next
  case (Inr td)
  then show ?thesis
    by (simp add: validateRedemptionRequest_def Let_def address_errors_other
        existing_errors_listed)
qed

lemma valid_iff_no_errors:
  "valid (validateRedemptionRequest w cfg s t p) = (errors (validateRedemptionRequest w cfg s t p) = [])"
  by (simp add: validateRedemptionRequest_def Let_def)

text \<open>
  Claim C5, as amended.  Validation reports \<open>Token has already been redeemed\<close> exactly when
  the token is non-empty and the index maps its hash to an attempt that is in the ledger;
  the state of that attempt is not consulted.  So for every token with a prior attempt in
  the ledger, whatever its state, \<open>Failed\<close> included, a new request is rejected with the
  joined errors and changes nothing.
\<close>

theorem prior_attempt_blocks_whatever_its_state:
  "((''Token has already been redeemed'' \<in> set (errors (validateRedemptionRequest w cfg s t p)))
      = (t \<noteq> [] \<and> checkExistingRedemption w s t \<noteq> None))
   \<and> (t \<noteq> [] \<longrightarrow> checkExistingRedemption w s t = Some prior \<longrightarrow>
        redeem_route w cfg now rid t p s
          = (ValidationRejected (join_comma (errors (validateRedemptionRequest w cfg s t p))), s))"
proof (intro conjI impI)
  show "(''Token has already been redeemed'' \<in> set (errors (validateRedemptionRequest w cfg s t p)))
      = (t \<noteq> [] \<and> checkExistingRedemption w s t \<noteq> None)"
    by (rule already_redeemed_listed)
next
  assume "t \<noteq> []" "checkExistingRedemption w s t = Some prior"
  then have "''Token has already been redeemed''
               \<in> set (errors (validateRedemptionRequest w cfg s t p))"
    by (simp add: already_redeemed_listed)
  then have "\<not> valid (validateRedemptionRequest w cfg s t p)"
    by (auto simp: valid_iff_no_errors)
  then show "redeem_route w cfg now rid t p s
          = (ValidationRejected (join_comma (errors (validateRedemptionRequest w cfg s t p))), s)"
    by (simp add: redeem_route_def Let_def)
qed











section \<open>The scenario, evaluated\<close>

lemma calculateFee_21000: "calculateFee 21000 = 420" by (simp add: calculateFee_exact)
lemma calculateFee_1: "calculateFee 1 = 1" by (simp add: calculateFee_exact)

lemma example_parse:
  "parseToken example_world example_token =
     Inr \<lparr>td_mint = ''https://mint.example.org'', td_totalAmount = 21000, td_numProofs = 4,
          td_denominations = [Some 16384, Some 4096, Some 512, Some 8],
          td_proofs = example_proofs, td_format = ''cashuA''\<rparr>"
  by (simp add: parseToken_def example_world_def example_token_def trim_def js_whitespace_def
      isValidTokenFormat_def startsWith_def token_char_def decodeTokenStructure_def rethrow_def
      example_proofs_def amount_or_0_def small_token_def)

lemma small_parse:
  "parseToken example_world small_token =
     Inr \<lparr>td_mint = ''https://mint.example.org'', td_totalAmount = 1, td_numProofs = 1,
          td_denominations = [Some 1],
          td_proofs = [\<lparr>p_amount = Some 1, p_secret = ''secret-5''\<rparr>], td_format = ''cashuB''\<rparr>"
  by (simp add: parseToken_def example_world_def example_token_def trim_def js_whitespace_def
      isValidTokenFormat_def startsWith_def token_char_def decodeTokenStructure_def rethrow_def
      amount_or_0_def small_token_def)

lemma example_config_eq:
  "example_config = \<lparr>allowedDomains = [''ln.tips'', ''getalby.com'', ''example.org''],
                      defaultLightningAddress = Some ''admin@example.org''\<rparr>"
  by (simp add: example_config_def LightningService_def trim_def js_whitespace_def)


lemma example_decode:
  "decodeTokenStructure example_world example_token =
     Inr \<lparr>s_proofs = Some example_proofs, s_mint = ''https://mint.example.org''\<rparr>"
  by (simp add: decodeTokenStructure_def example_world_def rethrow_def)

lemma example_world_simps:
  "sha256_hex16 example_world = take 16"
  "URL_valid example_world = (\<lambda>u. startsWith u ''https://'')"
  "mint_getInfo example_world = (\<lambda>log url. Inr ())"
  "mint_check example_world =
     (\<lambda>log url secrets. Inr \<lparr>c_spendable = Some (map (\<lambda>x. True) secrets), c_pending = Some []\<rparr>)"
  "wallet_createMeltQuote example_world =
     (\<lambda>log url invoice. Inr \<lparr>q_quote = ''quote-1'', q_amount = 20580, q_fee_reserve = 420\<rparr>)"
  "wallet_meltTokens example_world = (\<lambda>log url q ps. Inr example_melt_response)"
  "axios_get_lnurlp example_world =
     (\<lambda>log url. Inr \<lparr>http_status = 200, http_statusText = ''OK'', http_data = example_lnurlp\<rparr>)"
  "axios_get_invoice example_world =
     (\<lambda>log url amt c.
         Inr \<lparr>http_status = 200, http_statusText = ''OK'',
              http_data = example_lnurlp\<lparr>d_callback := None, d_minSendable := None,
                                          d_maxSendable := None,
                                          d_pr := Some ''lnbc205800n1pexample''\<rparr>\<rparr>)"
  by (simp_all add: example_world_def)

lemmas run_defs =
  performRedemption_def performRedemption_try_def parsing_stage_def spendability_stage_def
  spendability_check_def invoice_stage_def melting_stage_def finish_redemption_def
  register_attempt_def storeRedemption_def updateRedemption_def generateTokenHash_def
  getLightningAddressToUse_def useDefaultAddress_def getDefaultLightningAddress_def
  isUsingDefault_def initial_redemption_def final_update_def settled_def
  checkTokenSpendable_def checkTokenSpendable_try_def getMint_def getWallet_def call_def
  resolveInvoice_def resolveInvoice_try_def getLNURLpEndpoint_def parseLightningAddress_def
  validateLightningAddress_def emailRegex_def email_char_def isDomainAllowed_def
  toLowerCase_def toLowerCase_char_def fetchLNURLpResponse_def fetchLNURLpResponse_try_def
  falsy_string_def falsy_number_def validateAmount_def parseInt_def satsToMillisats_def
  getInvoice_def invoice_of_response_def rethrow_def meltToken_def meltToken_try_def
  melt_result_of_def paymentSuccessful_def actualFeeCharged_def
  num_or_def js_or_def js_and_def

lemma example_run_network:
  "network (snd (performRedemption example_world example_config 1000 ''id-1'' example_token None
                   empty_system)) =
     [MintGetInfo ''https://mint.example.org'',
      MintCheck ''https://mint.example.org'' [''secret-1'', ''secret-2'', ''secret-3'', ''secret-4''],
      LnurlpGet ''https://example.org/.well-known/lnurlp/admin'',
      InvoiceGet ''https://example.org/lnurlp/admin/callback'' 20580000 (Some ''Cashu redemption''),
      CreateMeltQuote ''https://mint.example.org'' ''lnbc205800n1pexample'',
      MeltTokens ''https://mint.example.org''
        \<lparr>q_quote = ''quote-1'', q_amount = 20580, q_fee_reserve = 420\<rparr> (Some example_proofs)]"
  by (simp add: run_defs example_parse example_decode example_world_simps example_config_eq
      calculateFee_21000 Let_def empty_system_def js_whitespace_def startsWith_def
      example_lnurlp_def example_melt_response_def example_proofs_def update_conv')


lemma tokens_nonempty: "example_token \<noteq> []" "small_token \<noteq> []"
  by (simp_all add: example_token_def small_token_def)


lemma small_run:
  "redeem_route example_world example_config 1000 ''id-1'' small_token None empty_system =
     (RedemptionFailed
        ''Token amount (1 sats) is insufficient to cover the minimum fee (1 sats)'' ''id-1'',
      after_failed_attempt)"
  "map (\<lambda>(rid, r). (rd_tokenHash r, rd_status r)) (redemptions after_failed_attempt)
     = [(take 16 small_token, Failed)]"
  "tokenHashes after_failed_attempt = [(take 16 small_token, ''id-1'')]"
  "network after_failed_attempt = []"
  unfolding after_failed_attempt_def
  by (simp_all add: redeem_route_def validateRedemptionRequest_def Let_def address_errors_def
      existing_errors_def checkExistingRedemption_def getRedemptionByTokenHash_def
      empty_system_def tokens_nonempty
      run_defs small_parse example_world_simps example_config_eq calculateFee_1
      js_whitespace_def insufficient_message_def show_int_def digits.simps update_conv')


lemma empty_system_simps:
  "network empty_system = []" "redemptions empty_system = []" "tokenHashes empty_system = []"
  "mints empty_system = []" "wallets empty_system = []"
  by (simp_all add: empty_system_def)

lemma example_address: "getLightningAddressToUse example_config None = Inr ''admin@example.org''"
  by (simp add: getLightningAddressToUse_def useDefaultAddress_def getDefaultLightningAddress_def
      example_config_eq)

lemma after_failed_attempt_existing:
  "map_option rd_status (checkExistingRedemption example_world after_failed_attempt small_token)
     = Some Failed"
  unfolding after_failed_attempt_def
  by (simp add: redeem_route_def validateRedemptionRequest_def Let_def address_errors_def
      existing_errors_def checkExistingRedemption_def getRedemptionByTokenHash_def
      getRedemption_def empty_system_def tokens_nonempty
      run_defs small_parse example_world_simps example_config_eq calculateFee_1
      js_whitespace_def update_conv')


text \<open>Witness for C3: the 1 sat token; the fee is 1 sat and nothing is left.\<close>

theorem insufficient_value_fails_before_any_network_call_witness:
  "parseToken example_world small_token =
     Inr \<lparr>td_mint = ''https://mint.example.org'', td_totalAmount = 1, td_numProofs = 1,
          td_denominations = [Some 1],
          td_proofs = [\<lparr>p_amount = Some 1, p_secret = ''secret-5''\<rparr>], td_format = ''cashuB''\<rparr>
   \<and> 1 - calculateFee 1 \<le> 0
   \<and> getLightningAddressToUse example_config None = Inr ''admin@example.org''
   \<and> fst (performRedemption example_world example_config 1000 ''id-1'' small_token None empty_system)
       = Failure ''id-1'' ''Token amount (1 sats) is insufficient to cover the minimum fee (1 sats)''
   \<and> network (snd (performRedemption example_world example_config 1000 ''id-1'' small_token None
                      empty_system)) = network empty_system"
  using insufficient_value_fails_before_any_network_call [OF small_parse _ example_address,
      of 1000 "''id-1''" empty_system]
  by (simp add: small_parse calculateFee_1 example_address insufficient_message_def show_int_def
      digits.simps)

text \<open>
  Witness for C6: the mint answers \<open>paid = false\<close> with a payment preimage; the attempt
  ends \<open>paid\<close>.
\<close>

theorem settlement_classified_by_signals_witness:
  "melt_count (network (snd (performRedemption example_world example_config 1000 ''id-1''
                               example_token None empty_system)))
     \<noteq> melt_count (network empty_system)
   \<and> r_paid example_melt_response = JBool False
   \<and> truthy (paymentSuccessful example_melt_response)
   \<and> (\<exists>res. fst (performRedemption example_world example_config 1000 ''id-1'' example_token None
                     empty_system) = Success res
            \<and> truthy (res_paid res))
   \<and> (\<exists>x. getRedemption (snd (performRedemption example_world example_config 1000 ''id-1''
                                 example_token None empty_system)) ''id-1'' = Some x
          \<and> rd_status x = Paid)"
proof -
  let ?run = "performRedemption example_world example_config 1000 ''id-1'' example_token None
                empty_system"
  have h: "melt_count (network (snd ?run)) \<noteq> melt_count (network empty_system)"
    by (simp add: example_run_network empty_system_simps)
  have sig: "settlement_signal example_melt_response"
    by (simp add: settlement_signal_def example_melt_response_def)
  note inst = settlement_classified_by_signals [of example_melt_response "''x''" example_world
      example_config 1000 "''id-1''" example_token None empty_system]
  from inst h obtain before wallet q proofs where
    "\<forall>answer. wallet_meltTokens example_world before wallet q proofs = Inr answer \<longrightarrow>
        (\<exists>res. fst ?run = Success res \<and> truthy (res_paid res) = settlement_signal answer)
        \<and> (\<exists>x. getRedemption (snd ?run) ''id-1'' = Some x
               \<and> rd_status x = (if settlement_signal answer then Paid else Failed))"
    by blast
  then have "(\<exists>res. fst ?run = Success res \<and> truthy (res_paid res))
             \<and> (\<exists>x. getRedemption (snd ?run) ''id-1'' = Some x \<and> rd_status x = Paid)"
    using sig by (simp add: example_world_simps)
  moreover have "truthy (paymentSuccessful example_melt_response)"
    using inst sig by simp
  ultimately show ?thesis
    using h by (simp add: example_melt_response_def)
qed

text \<open>
  Counterexample to C9 as stated: an attempt at \<open>melting_token\<close>, created at time 0, is
  removed by the sweep at time 86400001 with the default horizon.
\<close>

theorem sweep_removes_melting_attempt:
  "map (\<lambda>(redeemId, r). (redeemId, rd_status r, rd_createdAt r)) (redemptions stuck_system)
     = [(''id-7'', MeltingToken, 0)]
   \<and> getRedemption (cleanupOldRedemptions 86400001 None stuck_system) ''id-7'' = None"
  by (simp add: stuck_system_def empty_system_def initial_redemption_def
      cleanupOldRedemptions_def getRedemption_def Let_def)

text \<open>
  Witness for C9 as amended: the same ledger, swept one millisecond after the horizon
  (the entry and its index entry go) and exactly at the horizon (both stay).
\<close>

theorem sweep_removes_old_entries_whatever_their_state_witness:
  "distinct (map fst (redemptions stuck_system))
   \<and> redemptions (cleanupOldRedemptions 86400001 None stuck_system) = []
   \<and> tokenHashes (cleanupOldRedemptions 86400001 None stuck_system) = []
   \<and> redemptions (cleanupOldRedemptions 86400000 None stuck_system) = redemptions stuck_system
   \<and> tokenHashes (cleanupOldRedemptions 86400000 None stuck_system) = tokenHashes stuck_system"
proof -
  have d: "distinct (map fst (redemptions stuck_system))"
    by (simp add: stuck_system_def empty_system_def)
  from sweep_removes_old_entries_whatever_their_state [OF d, of 86400001 None]
    sweep_removes_old_entries_whatever_their_state [OF d, of 86400000 None]
  show ?thesis
    using d
    by (simp add: stuck_system_def empty_system_def initial_redemption_def swept_hashes_def
        example_token_def)
qed

text \<open>
  Counterexample to C5 as stated: the only prior attempt for the 1 sat token ended
  \<open>Failed\<close>, and a new request for that token is rejected.
\<close>

theorem failed_attempt_blocks_retry:
  "map (\<lambda>(redeemId, r). (rd_tokenHash r, rd_status r)) (redemptions after_failed_attempt)
     = [(take 16 small_token, Failed)]
   \<and> fst (redeem_route example_world example_config 2000 ''id-2'' small_token None
            after_failed_attempt)
     = ValidationRejected ''Token has already been redeemed''"
proof -
  have "checkExistingRedemption example_world after_failed_attempt small_token \<noteq> None"
    using after_failed_attempt_existing by force
  then have "errors (validateRedemptionRequest example_world example_config after_failed_attempt
                       small_token None) = [''Token has already been redeemed'']"
    by (simp add: validateRedemptionRequest_def Let_def existing_errors_eq tokens_nonempty
        address_errors_def example_address validateLightningAddress_def emailRegex_def
        email_char_def js_whitespace_def)
  then show ?thesis
    by (simp add: small_run redeem_route_def Let_def valid_iff_no_errors)
qed

text \<open>Witness for C5 as amended, on the same state.\<close>

theorem prior_attempt_blocks_whatever_its_state_witness:
  "small_token \<noteq> []
   \<and> (\<exists>prior. checkExistingRedemption example_world after_failed_attempt small_token = Some prior
              \<and> rd_status prior = Failed)
   \<and> ''Token has already been redeemed''
        \<in> set (errors (validateRedemptionRequest example_world example_config after_failed_attempt
                         small_token None))
   \<and> snd (redeem_route example_world example_config 2000 ''id-2'' small_token None
            after_failed_attempt) = after_failed_attempt"
proof -
  obtain prior where p:
    "checkExistingRedemption example_world after_failed_attempt small_token = Some prior"
    "rd_status prior = Failed"
    using after_failed_attempt_existing by auto
  from prior_attempt_blocks_whatever_its_state [of example_world example_config
      after_failed_attempt small_token None prior 2000 "''id-2''"] p tokens_nonempty
  show ?thesis by auto
qed


lemma uppercase_config_eq:
  "uppercase_config = \<lparr>allowedDomains = [''LN.tips'', ''getalby.com''],
                        defaultLightningAddress = None\<rparr>"
  by (simp add: uppercase_config_def LightningService_def trim_def js_whitespace_def)

text \<open>
  Witness for C10: a blank address with no default configured, and an absent address with
  the default \<open>admin@example.org\<close>.
\<close>

theorem default_address_when_none_given_witness:
  "isUsingDefault (Some ''   '')
   \<and> getDefaultLightningAddress uppercase_config = None
   \<and> \<not> valid (validateRedemptionRequest example_world uppercase_config empty_system example_token
                 (Some ''   ''))
   \<and> redeem_route example_world uppercase_config 1000 ''id-1'' example_token (Some ''   '')
        empty_system
       = (ValidationRejected
            ''No Lightning address provided and no default Lightning address configured'',
          empty_system)
   \<and> isUsingDefault None
   \<and> getDefaultLightningAddress example_config = Some ''admin@example.org''
   \<and> lightningAddressToUse
        (validateRedemptionRequest example_world example_config empty_system example_token None)
       = Some ''admin@example.org''
   \<and> map_option destination
        (getRedemption (snd (performRedemption example_world example_config 1000 ''id-1''
                               example_token None empty_system)) ''id-1'')
       = Some (''admin@example.org'', True)"
proof -
  have u1: "isUsingDefault (Some ''   '')"
    by (simp add: isUsingDefault_def trim_def js_whitespace_def)
  have n1: "getDefaultLightningAddress uppercase_config = None"
    by (simp add: getDefaultLightningAddress_def uppercase_config_eq)
  have e1: "errors (validateRedemptionRequest example_world uppercase_config empty_system
                      example_token (Some ''   ''))
              = [''No Lightning address provided and no default Lightning address configured'']"
    by (simp add: validateRedemptionRequest_def Let_def address_errors_def existing_errors_eq
        checkExistingRedemption_def getRedemptionByTokenHash_def empty_system_simps
        getLightningAddressToUse_def useDefaultAddress_def n1 tokens_nonempty trim_def
        js_whitespace_def)
  have u2: "isUsingDefault None" by (simp add: isUsingDefault_def)
  have n2: "getDefaultLightningAddress example_config = Some ''admin@example.org''"
    by (simp add: getDefaultLightningAddress_def example_config_eq)
  from default_address_when_none_given [where p = "Some ''   ''" and cfg = uppercase_config
      and w = example_world and s = empty_system and t = example_token and now = 1000
      and rid = "''id-1''"]
    default_address_when_none_given [where p = None and cfg = example_config
      and d = "''admin@example.org''" and w = example_world and s = empty_system
      and t = example_token and now = 1000 and rid = "''id-1''"]
  show ?thesis
    using u1 n1 u2 n2 by (simp add: e1)
qed

text \<open>
  Claim C7, evaluated where the code departs from it.  With
  \<open>ALLOW_REDEEM_DOMAINS=LN.tips,getalby.com\<close> the entry \<open>LN.tips\<close> matches no domain:
  \<open>isDomainAllowed\<close> lower-cases the domain it is given but compares it with the entries as
  configured, so \<open>ln.tips\<close> and \<open>LN.tips\<close> are both rejected, while the lower-case entry
  \<open>getalby.com\<close> admits \<open>GetAlby.com\<close>.
\<close>

theorem uppercase_allow_list_entry_never_matches:
  "allowedDomains uppercase_config = [''LN.tips'', ''getalby.com'']
   \<and> \<not> isDomainAllowed uppercase_config ''ln.tips''
   \<and> \<not> isDomainAllowed uppercase_config ''LN.tips''
   \<and> isDomainAllowed uppercase_config ''GetAlby.com''
   \<and> parseLightningAddress uppercase_config ''user@ln.tips''
       = Inl ''Domain ln.tips is not allowed for redemption''"
  by (simp add: uppercase_config_eq isDomainAllowed_def toLowerCase_def toLowerCase_char_def
      parseLightningAddress_def validateLightningAddress_def emailRegex_def email_char_def
      js_whitespace_def)

subsection \<open>The allow-list where it holds\<close>

text \<open>An empty allow-list, or one with the wildcard, admits every domain.\<close>

theorem allow_all_domains:
  "allowedDomains cfg = [] \<or> ''*'' \<in> set (allowedDomains cfg) \<Longrightarrow> isDomainAllowed cfg d"
  by (auto simp: isDomainAllowed_def)

text \<open>Witness: \<open>ALLOW_REDEEM_DOMAINS=*\<close>, and the variable unset.\<close>

theorem allow_all_domains_witness:
  "''*'' \<in> set (allowedDomains (LightningService (Some ''*'') None))
   \<and> isDomainAllowed (LightningService (Some ''*'') None) ''evil.com''
   \<and> allowedDomains (LightningService None None) = []
   \<and> isDomainAllowed (LightningService None None) ''evil.com''"
  using allow_all_domains [of "LightningService (Some ''*'') None" "''evil.com''"]
    allow_all_domains [of "LightningService None None" "''evil.com''"]
  by (simp add: LightningService_def trim_def js_whitespace_def)

text \<open>
  With a non-empty allow-list without the wildcard whose entries are all lower-case, a
  domain is admitted exactly when it equals an entry up to the case of its letters.
\<close>

theorem lowercase_allow_list_case_insensitive:
  assumes "allowedDomains cfg \<noteq> []" and "''*'' \<notin> set (allowedDomains cfg)"
    and "\<forall>e\<in>set (allowedDomains cfg). toLowerCase e = e"
  shows "isDomainAllowed cfg d = (\<exists>e\<in>set (allowedDomains cfg). toLowerCase d = toLowerCase e)"
  using assms by (auto simp: isDomainAllowed_def)

text \<open>Witness: the allow-list \<open>ln.tips, getalby.com, example.org\<close>.\<close>

theorem lowercase_allow_list_case_insensitive_witness:
  "allowedDomains example_config \<noteq> [] \<and> ''*'' \<notin> set (allowedDomains example_config)
   \<and> list_all (\<lambda>e. toLowerCase e = e) (allowedDomains example_config)
   \<and> isDomainAllowed example_config ''LN.Tips''
   \<and> \<not> isDomainAllowed example_config ''evil.com''"
proof -
  have a: "allowedDomains example_config \<noteq> []" "''*'' \<notin> set (allowedDomains example_config)"
    by (simp_all add: example_config_eq)
  have l: "\<forall>e\<in>set (allowedDomains example_config). toLowerCase e = e"
    by (simp add: example_config_eq toLowerCase_def toLowerCase_char_def)
  from lowercase_allow_list_case_insensitive [OF a l, of "''LN.Tips''"]
    lowercase_allow_list_case_insensitive [OF a l, of "''evil.com''"]
  show ?thesis
    using a l
    by (simp add: example_config_eq toLowerCase_def toLowerCase_char_def list_all_iff)
qed

text \<open>
  An address that \<open>parseLightningAddress\<close> rejects (bad format or domain not allowed) makes
  \<open>resolveInvoice\<close> fail with that error and leaves the state, the network log included,
  as it was.
\<close>

theorem disallowed_domain_rejected_before_network:
  assumes "parseLightningAddress cfg a = Inl e"
  shows "resolveInvoice w cfg a amt c s = (Inl (''Lightning address resolution failed: '' @ e), s)"
  using assms
  by (simp add: resolveInvoice_def resolveInvoice_try_def getLNURLpEndpoint_def rethrow_def)

text \<open>Witness: \<open>user@evil.com\<close> against the allow-list, and \<open>user@ln.tips\<close> passing it.\<close>

theorem disallowed_domain_rejected_before_network_witness:
  "parseLightningAddress example_config ''user@evil.com''
     = Inl ''Domain evil.com is not allowed for redemption''
   \<and> resolveInvoice example_world example_config ''user@evil.com'' 20580 ''Cashu redemption''
        empty_system
     = (Inl ''Lightning address resolution failed: Domain evil.com is not allowed for redemption'',
        empty_system)
   \<and> parseLightningAddress example_config ''user@ln.tips'' = Inr (''user'', ''ln.tips'')"
proof -
  have p: "parseLightningAddress example_config ''user@evil.com''
             = Inl ''Domain evil.com is not allowed for redemption''"
    by (simp add: example_config_eq isDomainAllowed_def toLowerCase_def toLowerCase_char_def
        parseLightningAddress_def validateLightningAddress_def emailRegex_def email_char_def
        js_whitespace_def)
  have q: "parseLightningAddress example_config ''user@ln.tips'' = Inr (''user'', ''ln.tips'')"
    by (simp add: example_config_eq isDomainAllowed_def toLowerCase_def toLowerCase_char_def
        parseLightningAddress_def validateLightningAddress_def emailRegex_def email_char_def
        js_whitespace_def)
  from disallowed_domain_rejected_before_network [OF p, where w = example_world and amt = 20580
      and c = "''Cashu redemption''" and s = empty_system]
  show ?thesis using p q by simp
qed

end
